theory Spec2Isabelle
  imports Complex_Main "HOL-Library.Code_Target_Nat"
begin

section \<open>The HVAC seed-data generators of data_generation/main.py\<close>

text \<open>
  The module builds nineteen tables of synthetic rows, each table by one function
  \<open>generate_...\<close>, and a smaller batch of thirteen tables in its incremental mode.
  The embedding follows the module function by function.

  \<^item> A row (a Python dict) is a record. The key columns and the columns computed from
    other columns are kept; columns that only hold vocabulary (names, phrases, dates
    supplied by Faker, categorical labels nothing else reads) are left out. Where two
    tables use one column name, the child table's field carries a short table prefix
    (\<open>sc_customer_id\<close> is the column \<open>customer_id\<close> of the service calls).
  \<^item> The \<open>random\<close> module is a stream of natural numbers, threaded through every
    generator in the order in which the source calls it. Each call of \<open>random.choice\<close>,
    \<open>random.randint\<close> or \<open>random.uniform\<close> takes one number from the stream and maps
    it into its range, so every result Python can return is the image of some stream, and
    a theorem that holds for every stream holds for every run. A call whose result only
    fills a column that is left out still takes its number (\<open>vocabulary_draws\<close>).
    The generator behind \<open>DataFrame.sample\<close> draws from the same stream.
  \<^item> Exceptions are values: a generator returns \<open>Inl e\<close> where the source raises.
  \<^item> Floats are rational numbers and \<open>round\<close> is exact rounding to the nearest
    multiple of a power of ten, ties to even. Statements about floats are therefore
    statements about the arithmetic the source intends, not about binary64 rounding error.
\<close>

subsection \<open>Exceptions, the random stream, generator computations\<close>

datatype py_error = IndexError | KeyError | ValueError

type_synonym rng = "nat \<Rightarrow> nat"

type_synonym 'a gen = "rng \<Rightarrow> py_error + ('a \<times> rng)"

definition advance :: "nat \<Rightarrow> rng \<Rightarrow> rng" where
  "advance k g = (\<lambda>i. g (i + k))"

definition gen_return :: "'a \<Rightarrow> 'a gen" where
  "gen_return x g = Inr (x, g)"

definition gen_raise :: "py_error \<Rightarrow> 'a gen" where
  "gen_raise e g = Inl e"

definition gen_bind :: "'a gen \<Rightarrow> ('a \<Rightarrow> 'b gen) \<Rightarrow> 'b gen" where
  "gen_bind m f g = (case m g of Inl e \<Rightarrow> Inl e | Inr (x, g') \<Rightarrow> f x g')"

text \<open>\<open>random.choice(xs)\<close>: IndexError on an empty sequence.\<close>

definition random_choice :: "'a list \<Rightarrow> 'a gen" where
  "random_choice xs g =
     (if xs = [] then Inl IndexError else Inr (xs ! (g 0 mod length xs), advance 1 g))"

text \<open>\<open>random.randint(a, b)\<close>: an integer of the closed range, ValueError when it is empty.\<close>

definition random_randint :: "int \<Rightarrow> int \<Rightarrow> int gen" where
  "random_randint a b g =
     (if b < a then Inl ValueError
      else Inr (a + int (g 0 mod nat (b - a + 1)), advance 1 g))"

text \<open>\<open>random.uniform(a, b)\<close> is \<open>a + (b - a) * random()\<close>, with \<open>random()\<close> one of the
  \<open>2^53\<close> multiples of \<open>2^-53\<close> in \<open>[0, 1)\<close>.\<close>

definition random_uniform :: "rat \<Rightarrow> rat \<Rightarrow> rat gen" where
  "random_uniform a b g =
     Inr (a + (b - a) * (of_nat (g 0 mod 9007199254740992) / 9007199254740992), advance 1 g)"

text \<open>\<open>random.choice([True, False])\<close>, the coin of the conditional columns.\<close>

definition coin :: "bool gen" where
  "coin = random_choice [True, False]"

text \<open>\<open>k\<close> calls of the random module on literal, non-empty ranges whose results fill
  columns that the rows of this theory leave out.\<close>

definition vocabulary_draws :: "nat \<Rightarrow> unit gen" where
  "vocabulary_draws k g = Inr ((), advance k g)"

text \<open>\<open>round(x, ndigits)\<close>.\<close>

definition py_round :: "rat \<Rightarrow> nat \<Rightarrow> rat" where
  "py_round x ndigits =
     (let y = x * 10 ^ ndigits; f = \<lfloor>y\<rfloor>; d = y - of_int f
      in of_int (if d < 1 / 2 then f else if 1 / 2 < d then f + 1
                 else if even f then f else f + 1) / 10 ^ ndigits)"

text \<open>\<open>for x in xs: body\<close>, where \<open>s\<close> is what the body updates (the list it appends to,
  a counter).\<close>

fun for_each :: "('i \<Rightarrow> 's \<Rightarrow> 's gen) \<Rightarrow> 'i list \<Rightarrow> 's \<Rightarrow> 's gen" where
  "for_each body [] s g = Inr (s, g)"
| "for_each body (x # xs) s g =
     (case body x s g of Inl e \<Rightarrow> Inl e | Inr (s', g') \<Rightarrow> for_each body xs s' g')"

text \<open>The loop \<open>for x in xs: out.append(row(x))\<close> on an empty list \<open>out\<close>.\<close>

definition collect :: "('i \<Rightarrow> 'r gen) \<Rightarrow> 'i list \<Rightarrow> 'r list gen" where
  "collect row xs =
     for_each (\<lambda>x out. gen_bind (row x) (\<lambda>r. gen_return (out @ [r]))) xs []"

text \<open>\<open>range(n)\<close>: empty for \<open>n \<le> 0\<close>.\<close>

definition py_range :: "int \<Rightarrow> nat list" where
  "py_range n = [0..<nat n]"

subsection \<open>Data frames\<close>

text \<open>
  A DataFrame is its list of rows, except that a frame built from no rows at all
  (\<open>pd.DataFrame([])\<close>) has no columns either, and reading a column of it raises KeyError.
  A frame that lost its rows to a filter, or was read from a file that holds only the
  header line, keeps its columns: \<open>Frame []\<close>.
\<close>

datatype 'r frame = NoColumns | Frame "'r list"

fun rows :: "'r frame \<Rightarrow> 'r list" where
  "rows NoColumns = []"
| "rows (Frame rs) = rs"

definition pd_DataFrame :: "'r list \<Rightarrow> 'r frame" where
  "pd_DataFrame rs = (if rs = [] then NoColumns else Frame rs)"

text \<open>\<open>df[name].tolist()\<close>.\<close>

fun column :: "('r \<Rightarrow> 'a) \<Rightarrow> 'r frame \<Rightarrow> 'a list gen" where
  "column f NoColumns g = Inl KeyError"
| "column f (Frame rs) g = Inr (map f rs, g)"

text \<open>\<open>pd.concat([a, b])\<close>.\<close>

fun pd_concat :: "'r frame \<Rightarrow> 'r frame \<Rightarrow> 'r frame" where
  "pd_concat NoColumns NoColumns = NoColumns"
| "pd_concat a b = Frame (rows a @ rows b)"

text \<open>\<open>df.sample(n=k)\<close>: \<open>k\<close> rows without replacement, in the order drawn; ValueError
  for a negative \<open>k\<close> and for more rows than the frame has.\<close>

fun sample_list :: "nat \<Rightarrow> 'a list \<Rightarrow> rng \<Rightarrow> 'a list \<times> rng" where
  "sample_list 0 xs g = ([], g)"
| "sample_list (Suc k) xs g =
     (let i = g 0 mod length xs;
          (ys, g') = sample_list k (take i xs @ drop (Suc i) xs) (advance 1 g)
      in (xs ! i # ys, g'))"

definition df_sample :: "int \<Rightarrow> 'r frame \<Rightarrow> 'r list gen" where
  "df_sample k df g =
     (if k < 0 \<or> int (length (rows df)) < k then Inl ValueError
      else Inr (sample_list (nat k) (rows df) g))"

subsection \<open>Technicians\<close>

record technician =
  technician_id :: int
  technician_level :: string
  technician_skills :: "(string \<times> int) list"

definition levels :: "string list" where
  "levels = [''junior'', ''senior'', ''lead'', ''specialist'']"

text \<open>The column names \<open>f'{skill.lower()}_skill'\<close> of the seven entries of \<open>skills\<close>.\<close>

definition skill_columns :: "string list" where
  "skill_columns =
     [''hvac_installation_skill'', ''electrical_skill'', ''refrigeration_skill'',
      ''ductwork_skill'', ''diagnostics_skill'', ''customer_service_skill'',
      ''safety_protocols_skill'']"

text \<open>\<open>{'junior': 3, 'senior': 6, 'lead': 8, 'specialist': 9}[level]\<close>.\<close>

definition base_skill_table :: "(string \<times> int) list" where
  "base_skill_table = [(''junior'', 3), (''senior'', 6), (''lead'', 8), (''specialist'', 9)]"

definition base_skill_of :: "string \<Rightarrow> int gen" where
  "base_skill_of level =
     (case map_of base_skill_table level of None \<Rightarrow> gen_raise KeyError
      | Some b \<Rightarrow> gen_return b)"

definition skill_step :: "int \<Rightarrow> string \<Rightarrow> (string \<times> int) list \<Rightarrow> (string \<times> int) list gen" where
  "skill_step base_skill skill acc =
     gen_bind (random_randint (- 2) 2) (\<lambda>skill_variance.
       gen_return (acc @ [(skill, max 1 (min 10 (base_skill + skill_variance)))]))"

definition technician_row :: "int \<Rightarrow> technician gen" where
  "technician_row tid =
     gen_bind (random_choice levels) (\<lambda>level.
     gen_bind (base_skill_of level) (\<lambda>base_skill.
     gen_bind (for_each (skill_step base_skill) skill_columns []) (\<lambda>skills.
     gen_bind (vocabulary_draws 3) (\<lambda>_.
       gen_return \<lparr>technician_id = tid, technician_level = level,
                   technician_skills = skills\<rparr>))))"

definition generate_technicians :: "int \<Rightarrow> technician frame gen" where
  "generate_technicians n_technicians =
     gen_bind (collect (\<lambda>i. technician_row (int i + 1)) (py_range n_technicians))
       (\<lambda>technicians. gen_return (pd_DataFrame technicians))"

definition generate_technicians_incremental :: "int \<Rightarrow> int \<Rightarrow> technician frame gen" where
  "generate_technicians_incremental n_technicians start_id =
     gen_bind (collect (\<lambda>i. technician_row (start_id + int i)) (py_range n_technicians))
       (\<lambda>technicians. gen_return (pd_DataFrame technicians))"

text \<open>\<open>X(random...) if random.choice([True, False]) else None\<close> in a column that is left
  out: the coin, and one more call when it shows True.\<close>

definition optional_draw :: "unit gen" where
  "optional_draw = gen_bind coin (\<lambda>b. if b then vocabulary_draws 1 else gen_return ())"

text \<open>\<open>enumerate(xs)\<close>.\<close>

definition enumerate_rows :: "'a list \<Rightarrow> (nat \<times> 'a) list" where
  "enumerate_rows xs = zip [0..<length xs] xs"

subsection \<open>Customers, equipment types, parts\<close>

record customer =
  customer_id :: int

definition customer_row :: "int \<Rightarrow> customer gen" where
  "customer_row cid =
     gen_bind (vocabulary_draws 2) (\<lambda>_. gen_return \<lparr>customer_id = cid\<rparr>)"

definition generate_customers :: "int \<Rightarrow> customer frame gen" where
  "generate_customers n_customers =
     gen_bind (collect (\<lambda>i. customer_row (int i + 1)) (py_range n_customers))
       (\<lambda>out. gen_return (pd_DataFrame out))"

definition generate_customers_incremental :: "int \<Rightarrow> int \<Rightarrow> customer frame gen" where
  "generate_customers_incremental n_customers start_id =
     gen_bind (collect (\<lambda>i. customer_row (start_id + int i)) (py_range n_customers))
       (\<lambda>out. gen_return (pd_DataFrame out))"

record equipment_type =
  equipment_id :: int

definition equipment_row :: "int \<Rightarrow> equipment_type gen" where
  "equipment_row eid =
     gen_bind (vocabulary_draws 6) (\<lambda>_. gen_return \<lparr>equipment_id = eid\<rparr>)"

definition generate_equipment_types :: "int \<Rightarrow> equipment_type frame gen" where
  "generate_equipment_types n_equipment =
     gen_bind (collect (\<lambda>i. equipment_row (int i + 1)) (py_range n_equipment))
       (\<lambda>out. gen_return (pd_DataFrame out))"

definition generate_equipment_types_incremental :: "int \<Rightarrow> int \<Rightarrow> equipment_type frame gen" where
  "generate_equipment_types_incremental n_equipment start_id =
     gen_bind (collect (\<lambda>i. equipment_row (start_id + int i)) (py_range n_equipment))
       (\<lambda>out. gen_return (pd_DataFrame out))"

record part =
  part_id :: int
  unit_cost :: rat

definition part_row :: "int \<Rightarrow> part gen" where
  "part_row pid =
     gen_bind (vocabulary_draws 2) (\<lambda>_.
     gen_bind (random_uniform 5 500) (\<lambda>u.
       gen_return \<lparr>part_id = pid, unit_cost = py_round u 2\<rparr>))"

definition generate_parts :: "int \<Rightarrow> part frame gen" where
  "generate_parts n_parts =
     gen_bind (collect (\<lambda>i. part_row (int i + 1)) (py_range n_parts))
       (\<lambda>out. gen_return (pd_DataFrame out))"

definition generate_parts_incremental :: "int \<Rightarrow> int \<Rightarrow> part frame gen" where
  "generate_parts_incremental n_parts start_id =
     gen_bind (collect (\<lambda>i. part_row (start_id + int i)) (py_range n_parts))
       (\<lambda>out. gen_return (pd_DataFrame out))"

subsection \<open>Installed devices\<close>

record installation =
  installation_id :: int
  inst_customer_id :: int
  inst_equipment_id :: int

definition installation_row ::
  "customer frame \<Rightarrow> equipment_type frame \<Rightarrow> nat \<Rightarrow> installation gen" where
  "installation_row customers_df equipment_df i =
     gen_bind (vocabulary_draws 1) (\<lambda>_.
     gen_bind (column customer_id customers_df) (\<lambda>cids.
     gen_bind (random_choice cids) (\<lambda>cid.
     gen_bind (column equipment_id equipment_df) (\<lambda>eids.
     gen_bind (random_choice eids) (\<lambda>eid.
     gen_bind (vocabulary_draws 3) (\<lambda>_.
       gen_return \<lparr>installation_id = int i + 1, inst_customer_id = cid,
                   inst_equipment_id = eid\<rparr>))))))"

definition generate_installed_devices ::
  "customer frame \<Rightarrow> equipment_type frame \<Rightarrow> int \<Rightarrow> installation frame gen" where
  "generate_installed_devices customers_df equipment_df n_installations =
     gen_bind (collect (installation_row customers_df equipment_df) (py_range n_installations))
       (\<lambda>out. gen_return (pd_DataFrame out))"

subsection \<open>Service calls\<close>

record service_call =
  service_call_id :: int
  sc_customer_id :: int
  sc_technician_id :: int
  sc_equipment_id :: int
  service_type :: string
  duration_hours :: rat
  labor_cost :: rat
  parts_cost :: rat
  total_cost :: rat

definition service_types :: "string list" where
  "service_types = [''Maintenance'', ''Repair'', ''Installation'', ''Emergency'', ''Inspection'']"

text \<open>One dict of the loop; \<open>total_cost\<close> is the placeholder 0 until the frame is built.\<close>

definition service_call_row ::
  "customer frame \<Rightarrow> technician frame \<Rightarrow> equipment_type frame \<Rightarrow> int \<Rightarrow> service_call gen" where
  "service_call_row customers_df technicians_df equipment_df scid =
     gen_bind (random_uniform 1 8) (\<lambda>u.
     gen_bind (column customer_id customers_df) (\<lambda>cids.
     gen_bind (random_choice cids) (\<lambda>cid.
     gen_bind (column technician_id technicians_df) (\<lambda>tids.
     gen_bind (random_choice tids) (\<lambda>tid.
     gen_bind (column equipment_id equipment_df) (\<lambda>eids.
     gen_bind (random_choice eids) (\<lambda>eid.
     gen_bind (random_choice service_types) (\<lambda>stype.
     gen_bind (random_randint 50 100) (\<lambda>rate.
     gen_bind (random_uniform 0 300) (\<lambda>p.
       gen_return \<lparr>service_call_id = scid, sc_customer_id = cid, sc_technician_id = tid,
                   sc_equipment_id = eid, service_type = stype,
                   duration_hours = py_round u 1,
                   labor_cost = py_round (py_round u 1 * of_int rate) 2,
                   parts_cost = py_round p 2, total_cost = 0\<rparr>))))))))))"

text \<open>\<open>df['total_cost'] = df['labor_cost'] + df['parts_cost']\<close>: a column read, so
  KeyError on the frame without columns.\<close>

fun assign_total_cost :: "service_call frame \<Rightarrow> service_call frame gen" where
  "assign_total_cost NoColumns g = Inl KeyError"
| "assign_total_cost (Frame rs) g =
     Inr (Frame (map (\<lambda>r. r\<lparr>total_cost := labor_cost r + parts_cost r\<rparr>) rs), g)"

definition generate_service_calls ::
  "customer frame \<Rightarrow> technician frame \<Rightarrow> equipment_type frame \<Rightarrow> int \<Rightarrow> service_call frame gen" where
  "generate_service_calls customers_df technicians_df equipment_df n_calls =
     gen_bind (collect (\<lambda>i. service_call_row customers_df technicians_df equipment_df (int i + 1))
                 (py_range n_calls))
       (\<lambda>out. assign_total_cost (pd_DataFrame out))"

definition generate_service_calls_incremental ::
  "int \<Rightarrow> int \<Rightarrow> customer frame \<Rightarrow> technician frame \<Rightarrow> equipment_type frame
     \<Rightarrow> service_call frame gen" where
  "generate_service_calls_incremental n_calls start_id customers_df technicians_df equipment_df =
     gen_bind (collect (\<lambda>i. service_call_row customers_df technicians_df equipment_df
                                (start_id + int i))
                 (py_range n_calls))
       (\<lambda>out. assign_total_cost (pd_DataFrame out))"


subsection \<open>Parts usage\<close>

record parts_usage_row =
  usage_id :: int
  pu_service_call_id :: int
  pu_part_id :: int
  quantity_used :: int

definition parts_usage_step ::
  "part frame \<Rightarrow> service_call \<Rightarrow> nat \<Rightarrow> parts_usage_row list \<Rightarrow> parts_usage_row list gen" where
  "parts_usage_step parts_df call j out =
     gen_bind (column part_id parts_df) (\<lambda>pids.
     gen_bind (random_choice pids) (\<lambda>pid.
     gen_bind (random_randint 1 5) (\<lambda>q.
       gen_return (out @ [\<lparr>usage_id = int (length out) + 1,
                            pu_service_call_id = service_call_id call,
                            pu_part_id = pid, quantity_used = q\<rparr>]))))"

definition parts_usage_call ::
  "part frame \<Rightarrow> int \<Rightarrow> service_call \<Rightarrow> parts_usage_row list \<Rightarrow> parts_usage_row list gen" where
  "parts_usage_call parts_df avg_parts_per_call call out =
     gen_bind (random_randint 0 (avg_parts_per_call * 2)) (\<lambda>n_parts.
       for_each (parts_usage_step parts_df call) (py_range n_parts) out)"

definition generate_parts_usage ::
  "service_call frame \<Rightarrow> part frame \<Rightarrow> int \<Rightarrow> parts_usage_row frame gen" where
  "generate_parts_usage service_calls_df parts_df avg_parts_per_call =
     gen_bind (for_each (parts_usage_call parts_df avg_parts_per_call) (rows service_calls_df) [])
       (\<lambda>out. gen_return (pd_DataFrame out))"

subsection \<open>Incident response\<close>

record incident =
  incident_id :: int
  ir_service_call_id :: int
  responding_technician_id :: int
  backup_technician_id :: "int option"

text \<open>\<open>service_calls_df[service_calls_df['service_type'] == 'Emergency']\<close>: the column is
  read for the mask; the filtered frame keeps its columns.\<close>

definition emergency_calls_of :: "service_call frame \<Rightarrow> service_call list gen" where
  "emergency_calls_of service_calls_df =
     gen_bind (column service_type service_calls_df) (\<lambda>_.
       gen_return (filter (\<lambda>c. service_type c = ''Emergency'') (rows service_calls_df)))"

definition incident_row :: "service_call list \<Rightarrow> technician frame \<Rightarrow> nat \<Rightarrow> incident gen" where
  "incident_row emergency_calls technicians_df i =
     (let call = emergency_calls ! (i mod length emergency_calls) in
      gen_bind (vocabulary_draws 4) (\<lambda>_.
      gen_bind coin (\<lambda>b.
      gen_bind (if b then gen_bind (column technician_id technicians_df) (\<lambda>tids.
                          gen_bind (random_choice tids) (\<lambda>tid. gen_return (Some tid)))
                else gen_return None) (\<lambda>backup.
      gen_bind (vocabulary_draws 3) (\<lambda>_.
        gen_return \<lparr>incident_id = int i + 1,
                    ir_service_call_id = service_call_id call,
                    responding_technician_id = sc_technician_id call,
                    backup_technician_id = backup\<rparr>)))))"

definition generate_incident_response ::
  "service_call frame \<Rightarrow> technician frame \<Rightarrow> int \<Rightarrow> incident frame gen" where
  "generate_incident_response service_calls_df technicians_df n_incidents =
     gen_bind (emergency_calls_of service_calls_df) (\<lambda>emergency_calls.
     gen_bind (collect (incident_row emergency_calls technicians_df)
                 (py_range (min n_incidents (int (length emergency_calls)))))
       (\<lambda>out. gen_return (pd_DataFrame out)))"

subsection \<open>Vehicle fleet, mailing list, subscriptions\<close>

record vehicle =
  vehicle_id :: int
  assigned_technician_id :: "int option"

definition vehicle_row :: "technician frame \<Rightarrow> nat \<Rightarrow> vehicle gen" where
  "vehicle_row technicians_df i =
     gen_bind (vocabulary_draws 4) (\<lambda>_.
     gen_bind coin (\<lambda>b.
     gen_bind (if b then gen_bind (column technician_id technicians_df) (\<lambda>tids.
                         gen_bind (random_choice tids) (\<lambda>tid. gen_return (Some tid)))
               else gen_return None) (\<lambda>assigned.
     gen_bind (vocabulary_draws 4) (\<lambda>_.
       gen_return \<lparr>vehicle_id = int i + 1, assigned_technician_id = assigned\<rparr>))))"

definition generate_vehicle_fleet :: "technician frame \<Rightarrow> int \<Rightarrow> vehicle frame gen" where
  "generate_vehicle_fleet technicians_df n_vehicles =
     gen_bind (collect (vehicle_row technicians_df) (py_range n_vehicles))
       (\<lambda>out. gen_return (pd_DataFrame out))"

record contact =
  contact_id :: int
  ml_customer_id :: "int option"

definition generate_mailing_list :: "customer frame \<Rightarrow> int \<Rightarrow> contact frame gen" where
  "generate_mailing_list customers_df n_additional =
     gen_bind (for_each (\<lambda>c out.
                 gen_bind (vocabulary_draws 3) (\<lambda>_.
                   gen_return (out @ [\<lparr>contact_id = int (length out) + 1,
                                        ml_customer_id = Some (customer_id c)\<rparr>])))
               (rows customers_df) []) (\<lambda>existing.
     gen_bind (for_each (\<lambda>i out.
                 gen_bind (vocabulary_draws 4) (\<lambda>_.
                   gen_return (out @ [\<lparr>contact_id = int (length out) + 1,
                                        ml_customer_id = None\<rparr>])))
               (py_range n_additional) existing)
       (\<lambda>out. gen_return (pd_DataFrame out)))"

record subscription =
  subscription_id :: int
  sub_customer_id :: int

definition subscription_row :: "customer frame \<Rightarrow> nat \<Rightarrow> subscription gen" where
  "subscription_row customers_df i =
     gen_bind (vocabulary_draws 2) (\<lambda>_.
     gen_bind (column customer_id customers_df) (\<lambda>cids.
     gen_bind (random_choice cids) (\<lambda>cid.
     gen_bind (vocabulary_draws 6) (\<lambda>_.
       gen_return \<lparr>subscription_id = int i + 1, sub_customer_id = cid\<rparr>))))"

definition generate_subscriptions :: "customer frame \<Rightarrow> int \<Rightarrow> subscription frame gen" where
  "generate_subscriptions customers_df n_subscriptions =
     gen_bind (collect (subscription_row customers_df) (py_range n_subscriptions))
       (\<lambda>out. gen_return (pd_DataFrame out))"

subsection \<open>Invoices and payments\<close>

record invoice =
  invoice_id :: int
  inv_service_call_id :: int
  inv_customer_id :: int
  subtotal :: rat
  tax_rate :: rat
  tax_amount :: rat
  total_amount :: rat
  inv_status :: string

definition tax_rates :: "rat list" where
  "tax_rates = [65 / 1000, 75 / 1000, 8 / 100, 85 / 1000]"

definition invoice_status :: "string list" where
  "invoice_status = [''Paid'', ''Pending'', ''Overdue'', ''Cancelled'']"

definition invoice_row :: "nat \<times> service_call \<Rightarrow> invoice gen" where
  "invoice_row ic =
     (case ic of (i, call) \<Rightarrow>
      gen_bind (vocabulary_draws 2) (\<lambda>_.
      gen_bind (random_uniform (11 / 10) (13 / 10)) (\<lambda>markup.
      gen_bind (random_choice tax_rates) (\<lambda>rate.
      gen_bind (vocabulary_draws 1) (\<lambda>_.
      gen_bind (random_choice invoice_status) (\<lambda>status.
      gen_bind (vocabulary_draws 1) (\<lambda>_.
        (let sub = py_round (total_cost call * markup) 2;
             tax = py_round (sub * rate) 2
         in gen_return \<lparr>invoice_id = int i + 1,
                         inv_service_call_id = service_call_id call,
                         inv_customer_id = sc_customer_id call,
                         subtotal = sub, tax_rate = rate, tax_amount = tax,
                         total_amount = sub + tax, inv_status = status\<rparr>))))))))"

text \<open>\<open>n_invoices=None\<close> stands for \<open>int(len(service_calls_df) * 0.85)\<close>. The frame
  \<open>customers_df\<close> is a parameter the body never reads.\<close>

definition generate_invoices ::
  "service_call frame \<Rightarrow> customer frame \<Rightarrow> int option \<Rightarrow> invoice frame gen" where
  "generate_invoices service_calls_df customers_df n_invoices =
     (let len = int (length (rows service_calls_df));
          n = (case n_invoices of None \<Rightarrow> \<lfloor>(of_int len :: rat) * (85 / 100)\<rfloor> | Some k \<Rightarrow> k)
      in gen_bind (df_sample (min n len) service_calls_df) (\<lambda>selected_calls.
         gen_bind (collect invoice_row (enumerate_rows selected_calls))
           (\<lambda>out. gen_return (pd_DataFrame out))))"

record payment =
  payment_id :: int
  pay_invoice_id :: int
  amount :: rat

definition payment_step :: "invoice \<Rightarrow> payment list \<times> int \<Rightarrow> (payment list \<times> int) gen" where
  "payment_step invoice st =
     (case st of (out, next_id) \<Rightarrow>
      if inv_status invoice = ''Paid'' then
        gen_bind (vocabulary_draws 1) (\<lambda>_.
        gen_bind optional_draw (\<lambda>_.
          gen_return (out @ [\<lparr>payment_id = next_id, pay_invoice_id = invoice_id invoice,
                               amount = total_amount invoice\<rparr>], next_id + 1)))
      else if inv_status invoice = ''Pending'' then
        gen_bind coin (\<lambda>b.
          if b then
            gen_bind (random_uniform (3 / 10) (8 / 10)) (\<lambda>fraction.
            gen_bind (vocabulary_draws 2) (\<lambda>_.
            gen_bind optional_draw (\<lambda>_.
              gen_return (out @ [\<lparr>payment_id = next_id, pay_invoice_id = invoice_id invoice,
                                   amount = py_round (total_amount invoice * fraction) 2\<rparr>],
                          next_id + 1))))
          else gen_return (out, next_id))
      else gen_return (out, next_id))"

text \<open>\<open>invoices_df[invoices_df['status'].isin(['Paid', 'Pending'])]\<close> reads the column
  \<open>status\<close> before the loop.\<close>

definition generate_payments :: "invoice frame \<Rightarrow> payment frame gen" where
  "generate_payments invoices_df =
     gen_bind (column inv_status invoices_df) (\<lambda>_.
     gen_bind (for_each payment_step
                 (filter (\<lambda>invoice. inv_status invoice \<in> {''Paid'', ''Pending''}) (rows invoices_df))
                 ([], 1))
       (\<lambda>st. gen_return (pd_DataFrame (fst st))))"


subsection \<open>Inventory, appointments, quotes, work orders, feedback, leads\<close>

record inventory_row =
  inventory_id :: int
  stock_part_id :: int

definition generate_inventory :: "part frame \<Rightarrow> inventory_row frame gen" where
  "generate_inventory parts_df =
     gen_bind (collect (\<lambda>p. gen_bind (vocabulary_draws 10) (\<lambda>_.
                             gen_return \<lparr>inventory_id = part_id p, stock_part_id = part_id p\<rparr>))
                 (rows parts_df))
       (\<lambda>out. gen_return (pd_DataFrame out))"

record appointment =
  appointment_id :: int
  ap_customer_id :: int
  ap_technician_id :: int
  ap_service_call_id :: "int option"

text \<open>The first loop: one appointment for every service call.\<close>

definition historical_appointment ::
  "service_call \<Rightarrow> appointment list \<times> int \<Rightarrow> (appointment list \<times> int) gen" where
  "historical_appointment call st =
     (case st of (out, next_id) \<Rightarrow>
      gen_bind (vocabulary_draws 3) (\<lambda>_.
      gen_bind optional_draw (\<lambda>_.
        gen_return (out @ [\<lparr>appointment_id = next_id,
                             ap_customer_id = sc_customer_id call,
                             ap_technician_id = sc_technician_id call,
                             ap_service_call_id = Some (service_call_id call)\<rparr>],
                    next_id + 1))))"

text \<open>The second loop: appointments to come, with no service call yet.\<close>

definition future_appointment ::
  "customer frame \<Rightarrow> technician frame \<Rightarrow> nat \<Rightarrow> appointment list \<times> int
     \<Rightarrow> (appointment list \<times> int) gen" where
  "future_appointment customers_df technicians_df i st =
     (case st of (out, next_id) \<Rightarrow>
      gen_bind (column customer_id customers_df) (\<lambda>cids.
      gen_bind (random_choice cids) (\<lambda>cid.
      gen_bind (column technician_id technicians_df) (\<lambda>tids.
      gen_bind (random_choice tids) (\<lambda>tid.
      gen_bind (vocabulary_draws 6) (\<lambda>_.
        gen_return (out @ [\<lparr>appointment_id = next_id, ap_customer_id = cid,
                             ap_technician_id = tid, ap_service_call_id = None\<rparr>],
                    next_id + 1)))))))"

definition generate_appointments ::
  "customer frame \<Rightarrow> technician frame \<Rightarrow> service_call frame \<Rightarrow> int \<Rightarrow> appointment frame gen" where
  "generate_appointments customers_df technicians_df service_calls_df n_appointments =
     gen_bind (for_each historical_appointment (rows service_calls_df) ([], 1)) (\<lambda>st.
       (let remaining_appointments = n_appointments - int (length (fst st)) in
        gen_bind (for_each (future_appointment customers_df technicians_df)
                    (py_range remaining_appointments) st)
          (\<lambda>st'. gen_return (pd_DataFrame (fst st')))))"

record quote =
  quote_id :: int
  q_customer_id :: int
  q_equipment_id :: "int option"
  equipment_cost :: rat

definition quote_row :: "customer frame \<Rightarrow> equipment_type frame \<Rightarrow> nat \<Rightarrow> quote gen" where
  "quote_row customers_df equipment_df i =
     gen_bind (vocabulary_draws 3) (\<lambda>_.
     gen_bind coin (\<lambda>b.
     gen_bind (if b then random_uniform 500 8000 else gen_return 0) (\<lambda>cost.
     gen_bind (vocabulary_draws 2) (\<lambda>_.
     gen_bind (column customer_id customers_df) (\<lambda>cids.
     gen_bind (random_choice cids) (\<lambda>cid.
     gen_bind (if 0 < cost
               then gen_bind (column equipment_id equipment_df) (\<lambda>eids.
                    gen_bind (random_choice eids) (\<lambda>eid. gen_return (Some eid)))
               else gen_return None) (\<lambda>eq.
     gen_bind (vocabulary_draws 3) (\<lambda>_.
     gen_bind optional_draw (\<lambda>_.
     gen_bind (vocabulary_draws 1) (\<lambda>_.
       gen_return \<lparr>quote_id = int i + 1, q_customer_id = cid, q_equipment_id = eq,
                   equipment_cost = py_round cost 2\<rparr>))))))))))"

definition generate_quotes ::
  "customer frame \<Rightarrow> equipment_type frame \<Rightarrow> int \<Rightarrow> quote frame gen" where
  "generate_quotes customers_df equipment_df n_quotes =
     gen_bind (collect (quote_row customers_df equipment_df) (py_range n_quotes))
       (\<lambda>out. gen_return (pd_DataFrame out))"

record work_order =
  work_order_id :: int
  wo_service_call_id :: int
  wo_technician_id :: int

text \<open>The frame \<open>technicians_df\<close> is a parameter the body never reads.\<close>

definition generate_work_orders ::
  "service_call frame \<Rightarrow> technician frame \<Rightarrow> work_order frame gen" where
  "generate_work_orders service_calls_df technicians_df =
     gen_bind (collect (\<lambda>call. gen_bind (vocabulary_draws 4) (\<lambda>_.
                             gen_return \<lparr>work_order_id = service_call_id call,
                                         wo_service_call_id = service_call_id call,
                                         wo_technician_id = sc_technician_id call\<rparr>))
                 (rows service_calls_df))
       (\<lambda>out. gen_return (pd_DataFrame out))"

record feedback =
  feedback_id :: int
  fb_service_call_id :: int
  fb_customer_id :: int

definition feedback_row :: "nat \<times> service_call \<Rightarrow> feedback gen" where
  "feedback_row ic =
     (case ic of (i, call) \<Rightarrow>
      gen_bind (vocabulary_draws 10) (\<lambda>_.
        gen_return \<lparr>feedback_id = int i + 1, fb_service_call_id = service_call_id call,
                    fb_customer_id = sc_customer_id call\<rparr>))"

text \<open>The frame \<open>customers_df\<close> is a parameter the body never reads.\<close>

definition generate_customer_feedback ::
  "service_call frame \<Rightarrow> customer frame \<Rightarrow> int \<Rightarrow> feedback frame gen" where
  "generate_customer_feedback service_calls_df customers_df n_feedback =
     gen_bind (df_sample (min n_feedback (int (length (rows service_calls_df)))) service_calls_df)
       (\<lambda>selected_calls.
     gen_bind (collect feedback_row (enumerate_rows selected_calls))
       (\<lambda>out. gen_return (pd_DataFrame out)))"

record lead =
  lead_id :: int

definition generate_leads :: "int \<Rightarrow> lead frame gen" where
  "generate_leads n_leads =
     gen_bind (collect (\<lambda>i. gen_bind (vocabulary_draws 9) (\<lambda>_.
                             gen_return \<lparr>lead_id = int i + 1\<rparr>))
                 (py_range n_leads))
       (\<lambda>out. gen_return (pd_DataFrame out))"


subsection \<open>Full generation\<close>

text \<open>The dict \<open>datasets\<close> that \<open>main\<close> builds when it is not called with
  \<open>--incremental\<close>, with the row counts it passes.\<close>

record datasets =
  customers :: "customer frame"
  technicians :: "technician frame"
  equipment_types :: "equipment_type frame"
  parts :: "part frame"
  installed_devices :: "installation frame"
  service_calls :: "service_call frame"
  parts_usage :: "parts_usage_row frame"
  incident_response :: "incident frame"
  vehicle_fleet :: "vehicle frame"
  mailing_list :: "contact frame"
  subscriptions :: "subscription frame"
  invoices :: "invoice frame"
  payments :: "payment frame"
  inventory :: "inventory_row frame"
  appointments :: "appointment frame"
  quotes :: "quote frame"
  work_orders :: "work_order frame"
  customer_feedback :: "feedback frame"
  leads :: "lead frame"

definition full_generation :: "datasets gen" where
  "full_generation =
     gen_bind (generate_customers 500) (\<lambda>c.
     gen_bind (generate_technicians 15) (\<lambda>t.
     gen_bind (generate_equipment_types 50) (\<lambda>e.
     gen_bind (generate_parts 200) (\<lambda>p.
     gen_bind (generate_installed_devices c e 800) (\<lambda>dev.
     gen_bind (generate_service_calls c t e 2000) (\<lambda>sc.
     gen_bind (generate_parts_usage sc p 2) (\<lambda>pu.
     gen_bind (generate_incident_response sc t 150) (\<lambda>ir.
     gen_bind (generate_vehicle_fleet t 20) (\<lambda>vf.
     gen_bind (generate_mailing_list c 300) (\<lambda>ml.
     gen_bind (generate_subscriptions c 250) (\<lambda>sub.
     gen_bind (generate_invoices sc c None) (\<lambda>inv.
     gen_bind (generate_payments inv) (\<lambda>pay.
     gen_bind (generate_inventory p) (\<lambda>stock.
     gen_bind (generate_appointments c t sc 500) (\<lambda>ap.
     gen_bind (generate_quotes c e 400) (\<lambda>q.
     gen_bind (generate_work_orders sc t) (\<lambda>wo.
     gen_bind (generate_customer_feedback sc c 800) (\<lambda>fb.
     gen_bind (generate_leads 600) (\<lambda>l.
       gen_return \<lparr>customers = c, technicians = t, equipment_types = e, parts = p,
                   installed_devices = dev, service_calls = sc, parts_usage = pu,
                   incident_response = ir, vehicle_fleet = vf, mailing_list = ml,
                   subscriptions = sub, invoices = inv, payments = pay, inventory = stock,
                   appointments = ap, quotes = q, work_orders = wo, customer_feedback = fb,
                   leads = l\<rparr>)))))))))))))))))))"

subsection \<open>Incremental generation\<close>

text \<open>The five seed files the incremental mode reads; \<open>None\<close> is a file that does not
  exist (\<open>pd.read_csv\<close> raises FileNotFoundError, which the function catches).\<close>

record seeds =
  existing_customers :: "customer frame option"
  existing_technicians :: "technician frame option"
  existing_equipment :: "equipment_type frame option"
  existing_parts :: "part frame option"
  existing_service_calls :: "service_call frame option"

text \<open>\<open>Series.max()\<close> of a column of integers. On a column without rows pandas returns
  NaN, which no integer stands for: the equation for the empty list is left out.\<close>

fun series_max :: "int list \<Rightarrow> int" where
  "series_max (x # xs) = fold max xs x"

record incremental_datasets =
  new_customers :: "customer frame"
  new_technicians :: "technician frame"
  new_equipment :: "equipment_type frame"
  new_parts :: "part frame"
  new_service_calls :: "service_call frame"
  new_parts_usage :: "parts_usage_row frame"
  new_invoices :: "invoice frame"
  new_payments :: "payment frame"
  new_appointments :: "appointment frame"
  new_quotes :: "quote frame"
  new_work_orders :: "work_order frame"
  new_customer_feedback :: "feedback frame"
  new_leads :: "lead frame"

text \<open>The body after the five files are read.\<close>

definition incremental_from ::
  "customer frame \<Rightarrow> technician frame \<Rightarrow> equipment_type frame \<Rightarrow> part frame
     \<Rightarrow> service_call frame \<Rightarrow> incremental_datasets gen" where
  "incremental_from ec et ee ep es =
     gen_bind (column customer_id ec) (\<lambda>cids.
     gen_bind (column technician_id et) (\<lambda>tids.
     gen_bind (column equipment_id ee) (\<lambda>eids.
     gen_bind (column part_id ep) (\<lambda>pids.
     gen_bind (column service_call_id es) (\<lambda>scids.
     gen_bind (generate_customers_incremental 5 (series_max cids + 1)) (\<lambda>nc.
     gen_bind (generate_technicians_incremental 2 (series_max tids + 1)) (\<lambda>nt.
     gen_bind (generate_equipment_types_incremental 3 (series_max eids + 1)) (\<lambda>ne.
     gen_bind (generate_parts_incremental 10 (series_max pids + 1)) (\<lambda>np.
       (let all_customers = pd_concat ec nc;
            all_technicians = pd_concat et nt;
            all_equipment = pd_concat ee ne
        in
     gen_bind (generate_service_calls_incremental 200 (series_max scids + 1)
                 all_customers all_technicians all_equipment) (\<lambda>nsc.
     gen_bind (generate_parts_usage nsc (pd_concat ep np) 2) (\<lambda>npu.
     gen_bind (generate_invoices nsc all_customers None) (\<lambda>ninv.
     gen_bind (generate_payments ninv) (\<lambda>npay.
     gen_bind (generate_appointments all_customers all_technicians nsc 50) (\<lambda>nap.
     gen_bind (generate_quotes all_customers all_equipment 30) (\<lambda>nq.
     gen_bind (generate_work_orders nsc all_technicians) (\<lambda>nwo.
     gen_bind (generate_customer_feedback nsc all_customers 100) (\<lambda>nfb.
     gen_bind (generate_leads 50) (\<lambda>nl.
       gen_return \<lparr>new_customers = nc, new_technicians = nt, new_equipment = ne,
                   new_parts = np, new_service_calls = nsc, new_parts_usage = npu,
                   new_invoices = ninv, new_payments = npay, new_appointments = nap,
                   new_quotes = nq, new_work_orders = nwo, new_customer_feedback = nfb,
                   new_leads = nl\<rparr>)))))))))))))))))))"

text \<open>The result is the dict \<open>incremental_datasets\<close> handed to \<open>save_to_csv\<close>, or
  \<open>None\<close> when a seed file is missing and the function returns after its message.\<close>

definition generate_incremental_data :: "seeds \<Rightarrow> incremental_datasets option gen" where
  "generate_incremental_data sd =
     (case existing_customers sd of None \<Rightarrow> gen_return None | Some ec \<Rightarrow>
      case existing_technicians sd of None \<Rightarrow> gen_return None | Some et \<Rightarrow>
      case existing_equipment sd of None \<Rightarrow> gen_return None | Some ee \<Rightarrow>
      case existing_parts sd of None \<Rightarrow> gen_return None | Some ep \<Rightarrow>
      case existing_service_calls sd of None \<Rightarrow> gen_return None | Some es \<Rightarrow>
        gen_bind (incremental_from ec et ee ep es) (\<lambda>d. gen_return (Some d)))"

datatype run = FullRun datasets | IncrementalRun "incremental_datasets option"

text \<open>\<open>main\<close>, with \<open>sys.argv\<close> and the seed directory as arguments.\<close>

definition main :: "string list \<Rightarrow> seeds \<Rightarrow> run gen" where
  "main argv sd =
     (if 1 < length argv \<and> argv ! 1 = ''--incremental''
      then gen_bind (generate_incremental_data sd) (\<lambda>r. gen_return (IncrementalRun r))
      else gen_bind full_generation (\<lambda>d. gen_return (FullRun d)))"


section \<open>Properties\<close>

text \<open>A frame with columns and at least one row.\<close>

fun populated :: "'r frame \<Rightarrow> bool" where
  "populated NoColumns = False"
| "populated (Frame rs) = (rs \<noteq> [])"

text \<open>A skill value is the tier's base value plus a variance of at most two, clamped
  into the range from 1 to 10.\<close>

definition skill_from_tier :: "string \<Rightarrow> int \<Rightarrow> bool" where
  "skill_from_tier level v =
     (case map_of base_skill_table level of None \<Rightarrow> False
      | Some b \<Rightarrow> (\<exists>variance\<in>{- 2..2}. v = max 1 (min 10 (b + variance))))"

definition skills_ok :: "technician \<Rightarrow> bool" where
  "skills_ok t =
     (map fst (technician_skills t) = skill_columns \<and>
      (\<forall>(c, v)\<in>set (technician_skills t).
          1 \<le> v \<and> v \<le> 10 \<and> skill_from_tier (technician_level t) v))"

text \<open>An amount of currency precision: rounding it to two decimals changes nothing.\<close>

definition two_decimals :: "rat \<Rightarrow> bool" where
  "two_decimals x = (py_round x 2 = x)"

definition service_call_row_ok ::
  "customer frame \<Rightarrow> technician frame \<Rightarrow> equipment_type frame \<Rightarrow> int \<Rightarrow> service_call \<Rightarrow> bool" where
  "service_call_row_ok c t e scid r =
     (service_call_id r = scid \<and>
      sc_customer_id r \<in> customer_id ` set (rows c) \<and>
      sc_technician_id r \<in> technician_id ` set (rows t) \<and>
      sc_equipment_id r \<in> equipment_id ` set (rows e) \<and>
      service_type r \<in> set service_types \<and>
      two_decimals (labor_cost r) \<and> two_decimals (parts_cost r))"

definition incident_of :: "technician frame \<Rightarrow> service_call \<Rightarrow> incident \<Rightarrow> bool" where
  "incident_of t call r =
     (ir_service_call_id r = service_call_id call \<and>
      responding_technician_id r = sc_technician_id call \<and>
      (\<forall>k. backup_technician_id r = Some k \<longrightarrow> k \<in> technician_id ` set (rows t)))"

definition optional_ref :: "int option \<Rightarrow> int set \<Rightarrow> bool" where
  "optional_ref fk keys = (case fk of None \<Rightarrow> True | Some k \<Rightarrow> k \<in> keys)"

definition invoice_of :: "service_call \<Rightarrow> invoice \<Rightarrow> bool" where
  "invoice_of call r =
     (inv_service_call_id r = service_call_id call \<and>
      inv_customer_id r = sc_customer_id call \<and>
      (\<exists>markup. 11 / 10 \<le> markup \<and> markup \<le> 13 / 10 \<and>
          subtotal r = py_round (total_cost call * markup) 2) \<and>
      tax_rate r \<in> set tax_rates \<and>
      tax_amount r = py_round (subtotal r * tax_rate r) 2 \<and>
      total_amount r = subtotal r + tax_amount r \<and>
      inv_status r \<in> set invoice_status)"

definition invoice_count :: "service_call frame \<Rightarrow> int option \<Rightarrow> int" where
  "invoice_count sc n =
     (let len = int (length (rows sc))
      in min (case n of None \<Rightarrow> \<lfloor>(of_int len :: rat) * (85 / 100)\<rfloor> | Some k \<Rightarrow> k) len)"

definition feedback_of :: "service_call \<Rightarrow> feedback \<Rightarrow> bool" where
  "feedback_of call r =
     (fb_service_call_id r = service_call_id call \<and> fb_customer_id r = sc_customer_id call)"

definition usage_ok :: "service_call frame \<Rightarrow> part frame \<Rightarrow> parts_usage_row \<Rightarrow> bool" where
  "usage_ok sc p r =
     (pu_service_call_id r \<in> service_call_id ` set (rows sc) \<and>
      pu_part_id r \<in> part_id ` set (rows p))"

definition appointment_of :: "service_call \<Rightarrow> appointment \<Rightarrow> bool" where
  "appointment_of call r =
     (ap_customer_id r = sc_customer_id call \<and>
      ap_technician_id r = sc_technician_id call \<and>
      ap_service_call_id r = Some (service_call_id call))"

definition future_ok :: "customer frame \<Rightarrow> technician frame \<Rightarrow> appointment \<Rightarrow> bool" where
  "future_ok c t r =
     (ap_customer_id r \<in> customer_id ` set (rows c) \<and>
      ap_technician_id r \<in> technician_id ` set (rows t) \<and>
      ap_service_call_id r = None)"

definition payments_for :: "invoice \<Rightarrow> payment list \<Rightarrow> bool" where
  "payments_for invoice ps =
     (if inv_status invoice = ''Paid''
      then (\<exists>p. ps = [p] \<and> pay_invoice_id p = invoice_id invoice \<and>
                amount p = total_amount invoice)
      else if inv_status invoice = ''Pending''
      then ps = [] \<or>
           (\<exists>p fraction. ps = [p] \<and> pay_invoice_id p = invoice_id invoice \<and>
                3 / 10 \<le> fraction \<and> fraction \<le> 8 / 10 \<and>
                amount p = py_round (total_amount invoice * fraction) 2)
      else ps = [])"

definition incidents_from :: "service_call frame \<Rightarrow> technician frame \<Rightarrow> int \<Rightarrow> incident frame \<Rightarrow> bool" where
  "incidents_from sc t n df =
     list_all2 (\<lambda>i r. incident_id r = int i + 1 \<and>
                 incident_of t (filter (\<lambda>c. service_type c = ''Emergency'') (rows sc) ! i) r)
       (py_range (min n (int (length (filter (\<lambda>c. service_type c = ''Emergency'') (rows sc))))))
       (rows df)"

definition invoices_from :: "service_call frame \<Rightarrow> int option \<Rightarrow> invoice frame \<Rightarrow> bool" where
  "invoices_from sc n df =
     (\<exists>sel. length sel = nat (invoice_count sc n) \<and> set sel \<subseteq> set (rows sc) \<and>
        populated df = (sel \<noteq> []) \<and>
        list_all2 (\<lambda>ic r. invoice_id r = int (fst ic) + 1 \<and> invoice_of (snd ic) r)
          (enumerate_rows sel) (rows df))"

definition feedback_from :: "service_call frame \<Rightarrow> int \<Rightarrow> feedback frame \<Rightarrow> bool" where
  "feedback_from sc n df =
     (\<exists>sel. length sel = nat (min n (int (length (rows sc)))) \<and> set sel \<subseteq> set (rows sc) \<and>
        populated df = (sel \<noteq> []) \<and>
        list_all2 (\<lambda>ic r. feedback_id r = int (fst ic) + 1 \<and> feedback_of (snd ic) r)
          (enumerate_rows sel) (rows df))"

definition payments_from :: "invoice frame \<Rightarrow> payment frame \<Rightarrow> bool" where
  "payments_from ivs df =
     (map payment_id (rows df) = [1..int (length (rows df))] \<and>
      (\<exists>pss. list_all2 payments_for (rows ivs) pss \<and> rows df = concat pss))"

definition appointments_from ::
  "customer frame \<Rightarrow> technician frame \<Rightarrow> service_call frame \<Rightarrow> int \<Rightarrow> appointment frame \<Rightarrow> bool" where
  "appointments_from c t sc n df =
     (map appointment_id (rows df) = [1..int (length (rows df))] \<and>
      (\<exists>hist fut. rows df = hist @ fut \<and> list_all2 appointment_of (rows sc) hist \<and>
          length fut = nat (n - int (length (rows sc))) \<and>
          (\<forall>r\<in>set fut. future_ok c t r)))"

definition mailing_from :: "customer frame \<Rightarrow> int \<Rightarrow> contact frame \<Rightarrow> bool" where
  "mailing_from c n df =
     (length (rows df) = length (rows c) + nat n \<and>
      map contact_id (rows df) = [1..int (length (rows df))] \<and>
      (\<forall>r\<in>set (rows df). optional_ref (ml_customer_id r) (customer_id ` set (rows c))))"

definition usage_from :: "service_call frame \<Rightarrow> part frame \<Rightarrow> parts_usage_row frame \<Rightarrow> bool" where
  "usage_from sc p df =
     (map usage_id (rows df) = [1..int (length (rows df))] \<and>
      (\<forall>r\<in>set (rows df). usage_ok sc p r))"

definition full_steps :: "datasets \<Rightarrow> bool" where
  "full_steps ds =
     (let c = customers ds; t = technicians ds; e = equipment_types ds; p = parts ds;
          sc = service_calls ds
      in populated c \<and>
         list_all2 (\<lambda>i r. customer_id r = int i + 1) (py_range 500) (rows c) \<and>
         populated t \<and>
         list_all2 (\<lambda>i r. technician_id r = int i + 1 \<and> skills_ok r) (py_range 15) (rows t) \<and>
         populated e \<and>
         list_all2 (\<lambda>i r. equipment_id r = int i + 1) (py_range 50) (rows e) \<and>
         populated p \<and>
         list_all2 (\<lambda>i r. part_id r = int i + 1) (py_range 200) (rows p) \<and>
         list_all2 (\<lambda>i r. installation_id r = int i + 1 \<and>
                inst_customer_id r \<in> customer_id ` set (rows c) \<and>
                inst_equipment_id r \<in> equipment_id ` set (rows e))
           (py_range 800) (rows (installed_devices ds)) \<and>
         populated sc \<and>
         list_all2 (\<lambda>i r. service_call_row_ok c t e (int i + 1) r \<and>
                          total_cost r = labor_cost r + parts_cost r) (py_range 2000) (rows sc) \<and>
         usage_from sc p (parts_usage ds) \<and>
         incidents_from sc t 150 (incident_response ds) \<and>
         list_all2 (\<lambda>i r. vehicle_id r = int i + 1 \<and>
                optional_ref (assigned_technician_id r) (technician_id ` set (rows t)))
           (py_range 20) (rows (vehicle_fleet ds)) \<and>
         mailing_from c 300 (mailing_list ds) \<and>
         list_all2 (\<lambda>i r. subscription_id r = int i + 1 \<and>
                sub_customer_id r \<in> customer_id ` set (rows c))
           (py_range 250) (rows (subscriptions ds)) \<and>
         invoices_from sc None (invoices ds) \<and>
         payments_from (invoices ds) (payments ds) \<and>
         list_all2 (\<lambda>x r. inventory_id r = part_id x \<and> stock_part_id r = part_id x)
           (rows p) (rows (inventory ds)) \<and>
         appointments_from c t sc 500 (appointments ds) \<and>
         list_all2 (\<lambda>i r. quote_id r = int i + 1 \<and>
                q_customer_id r \<in> customer_id ` set (rows c) \<and>
                optional_ref (q_equipment_id r) (equipment_id ` set (rows e)))
           (py_range 400) (rows (quotes ds)) \<and>
         list_all2 (\<lambda>x r. work_order_id r = service_call_id x \<and>
                         wo_service_call_id r = service_call_id x \<and>
                         wo_technician_id r = sc_technician_id x)
           (rows sc) (rows (work_orders ds)) \<and>
         feedback_from sc 800 (customer_feedback ds) \<and>
         list_all2 (\<lambda>i r. lead_id r = int i + 1) (py_range 600) (rows (leads ds)))"

definition incremental_steps ::
  "customer frame \<Rightarrow> technician frame \<Rightarrow> equipment_type frame \<Rightarrow> part frame
     \<Rightarrow> service_call frame \<Rightarrow> incremental_datasets \<Rightarrow> bool" where
  "incremental_steps ec et ee ep es d =
     (let nc = new_customers d; nt = new_technicians d; ne = new_equipment d;
          np = new_parts d; nsc = new_service_calls d;
          all_c = pd_concat ec nc; all_t = pd_concat et nt; all_e = pd_concat ee ne
      in populated nc \<and>
         list_all2 (\<lambda>i r. customer_id r = series_max (map customer_id (rows ec)) + 1 + int i)
           (py_range 5) (rows nc) \<and>
         populated nt \<and>
         list_all2 (\<lambda>i r. technician_id r = series_max (map technician_id (rows et)) + 1 + int i \<and>
                          skills_ok r) (py_range 2) (rows nt) \<and>
         populated ne \<and>
         list_all2 (\<lambda>i r. equipment_id r = series_max (map equipment_id (rows ee)) + 1 + int i)
           (py_range 3) (rows ne) \<and>
         populated np \<and>
         list_all2 (\<lambda>i r. part_id r = series_max (map part_id (rows ep)) + 1 + int i)
           (py_range 10) (rows np) \<and>
         populated nsc \<and>
         list_all2 (\<lambda>i r. service_call_row_ok all_c all_t all_e
                            (series_max (map service_call_id (rows es)) + 1 + int i) r \<and>
                          total_cost r = labor_cost r + parts_cost r) (py_range 200) (rows nsc) \<and>
         usage_from nsc (pd_concat ep np) (new_parts_usage d) \<and>
         invoices_from nsc None (new_invoices d) \<and>
         payments_from (new_invoices d) (new_payments d) \<and>
         appointments_from all_c all_t nsc 50 (new_appointments d) \<and>
         list_all2 (\<lambda>i r. quote_id r = int i + 1 \<and>
                q_customer_id r \<in> customer_id ` set (rows all_c) \<and>
                optional_ref (q_equipment_id r) (equipment_id ` set (rows all_e)))
           (py_range 30) (rows (new_quotes d)) \<and>
         list_all2 (\<lambda>x r. work_order_id r = service_call_id x \<and>
                         wo_service_call_id r = service_call_id x \<and>
                         wo_technician_id r = sc_technician_id x)
           (rows nsc) (rows (new_work_orders d)) \<and>
         feedback_from nsc 100 (new_customer_feedback d) \<and>
         list_all2 (\<lambda>i r. lead_id r = int i + 1) (py_range 50) (rows (new_leads d)))"

definition example_customers :: "customer frame" where
  "example_customers = Frame [\<lparr>customer_id = 1\<rparr>, \<lparr>customer_id = 2\<rparr>]"

definition example_technicians :: "technician frame" where
  "example_technicians =
     Frame [\<lparr>technician_id = 7, technician_level = ''senior'', technician_skills = []\<rparr>,
            \<lparr>technician_id = 8, technician_level = ''junior'', technician_skills = []\<rparr>,
            \<lparr>technician_id = 9, technician_level = ''lead'', technician_skills = []\<rparr>]"

definition example_equipment :: "equipment_type frame" where
  "example_equipment = Frame [\<lparr>equipment_id = 1\<rparr>]"

definition example_parts :: "part frame" where
  "example_parts = Frame [\<lparr>part_id = 4, unit_cost = 10\<rparr>, \<lparr>part_id = 5, unit_cost = 5 / 2\<rparr>]"

definition example_calls :: "service_call list" where
  "example_calls =
     [\<lparr>service_call_id = 1, sc_customer_id = 2, sc_technician_id = 7, sc_equipment_id = 1,
        service_type = ''Emergency'', duration_hours = 2, labor_cost = 150,
        parts_cost = 41 / 2, total_cost = 341 / 2\<rparr>,
      \<lparr>service_call_id = 2, sc_customer_id = 2, sc_technician_id = 8, sc_equipment_id = 1,
        service_type = ''Repair'', duration_hours = 2, labor_cost = 150,
        parts_cost = 41 / 2, total_cost = 341 / 2\<rparr>,
      \<lparr>service_call_id = 3, sc_customer_id = 1, sc_technician_id = 9, sc_equipment_id = 1,
        service_type = ''Emergency'', duration_hours = 2, labor_cost = 150,
        parts_cost = 41 / 2, total_cost = 341 / 2\<rparr>]"

definition example_invoices :: "invoice list" where
  "example_invoices =
     [\<lparr>invoice_id = 1, inv_service_call_id = 1, inv_customer_id = 2, subtotal = 100,
        tax_rate = 8 / 100, tax_amount = 8, total_amount = 108, inv_status = ''Paid''\<rparr>,
      \<lparr>invoice_id = 2, inv_service_call_id = 2, inv_customer_id = 2, subtotal = 100,
        tax_rate = 8 / 100, tax_amount = 8, total_amount = 108, inv_status = ''Overdue''\<rparr>,
      \<lparr>invoice_id = 3, inv_service_call_id = 3, inv_customer_id = 1, subtotal = 100,
        tax_rate = 8 / 100, tax_amount = 8, total_amount = 108, inv_status = ''Pending''\<rparr>]"

definition example_seeds :: seeds where
  "example_seeds =
     \<lparr>existing_customers = Some example_customers,
      existing_technicians = Some example_technicians,
      existing_equipment = Some example_equipment,
      existing_parts = Some example_parts,
      existing_service_calls = Some (Frame example_calls)\<rparr>"

definition payment_rows_of :: "invoice \<Rightarrow> payment list \<Rightarrow> bool" where
  "payment_rows_of invoice ps =
     (if inv_status invoice = ''Paid''
      then (\<exists>p. ps = [p] \<and> pay_invoice_id p = invoice_id invoice \<and>
                amount p = total_amount invoice)
      else if inv_status invoice = ''Pending''
      then ps = [] \<or>
           (\<exists>p fraction. ps = [p] \<and> pay_invoice_id p = invoice_id invoice \<and>
                3 / 10 \<le> fraction \<and> fraction \<le> 8 / 10 \<and>
                amount p = py_round (total_amount invoice * fraction) 2 \<and>
                (1 / 40 < total_amount invoice \<longrightarrow> amount p < total_amount invoice))
      else ps = [])"

section \<open>Reasoning about generator computations\<close>

text \<open>\<open>returns m Q g\<close>: started on the stream \<open>g\<close>, the computation \<open>m\<close> raises nothing and
  its result satisfies \<open>Q\<close>.\<close>

definition returns :: "'a gen \<Rightarrow> ('a \<Rightarrow> bool) \<Rightarrow> rng \<Rightarrow> bool" where
  "returns m Q g = (case m g of Inl e \<Rightarrow> False | Inr (x, g') \<Rightarrow> Q x)"

lemma returnsD: "returns m Q g \<Longrightarrow> \<exists>x g'. m g = Inr (x, g') \<and> Q x"
  by (auto simp: returns_def split: sum.splits)

lemma returnsI: "m g = Inr (x, g') \<Longrightarrow> Q x \<Longrightarrow> returns m Q g"
  by (simp add: returns_def)

lemma returns_weaken: "returns m P g \<Longrightarrow> (\<And>x. P x \<Longrightarrow> Q x) \<Longrightarrow> returns m Q g"
  by (auto simp: returns_def split: sum.splits)

lemma returns_conj: "returns m P g \<Longrightarrow> returns m Q g \<Longrightarrow> returns m (\<lambda>x. P x \<and> Q x) g"
  by (auto simp: returns_def split: sum.splits)

lemma returns_return: "Q x \<Longrightarrow> returns (gen_return x) Q g"
  by (simp add: returns_def gen_return_def)

lemma returns_bind:
  "returns m P g \<Longrightarrow> (\<And>x g'. P x \<Longrightarrow> returns (f x) Q g') \<Longrightarrow> returns (gen_bind m f) Q g"
  by (fastforce simp: returns_def gen_bind_def split: sum.splits)

lemma returns_choice: "xs \<noteq> [] \<Longrightarrow> returns (random_choice xs) (\<lambda>x. x \<in> set xs) g"
  by (simp add: returns_def random_choice_def)

lemma returns_coin: "returns coin (\<lambda>b. True) g"
  by (simp add: returns_def coin_def random_choice_def)

lemma returns_randint: "a \<le> b \<Longrightarrow> returns (random_randint a b) (\<lambda>x. a \<le> x \<and> x \<le> b) g"
proof -
  assume ab: "a \<le> b"
  have "g 0 mod nat (b - a + 1) < nat (b - a + 1)"
    using ab by (intro mod_less_divisor) simp
  then have "int (g 0 mod nat (b - a + 1)) < b - a + 1"
    using ab by linarith
  then show ?thesis
    using ab by (simp add: returns_def random_randint_def)
qed

lemma returns_uniform:
  "a \<le> b \<Longrightarrow> returns (random_uniform a b) (\<lambda>x. a \<le> x \<and> x \<le> b) g"
proof -
  assume ab: "a \<le> b"
  define u :: rat where "u = of_nat (g 0 mod 9007199254740992) / 9007199254740992"
  have u0: "0 \<le> u" by (simp add: u_def)
  have "g 0 mod 9007199254740992 < (9007199254740992::nat)" by simp
  then have "(of_nat (g 0 mod 9007199254740992) :: rat) \<le> of_nat 9007199254740992"
    by (metis of_nat_le_iff less_imp_le)
  then have u1: "u \<le> 1" by (simp add: u_def)
  have "0 \<le> (b - a) * u" using ab u0 by simp
  moreover have "(b - a) * u \<le> (b - a) * 1"
    using ab u1 by (intro mult_left_mono) simp_all
  ultimately show ?thesis
    by (simp add: returns_def random_uniform_def u_def [symmetric])
qed

lemma returns_vocabulary: "returns (vocabulary_draws k) (\<lambda>_. True) g"
  by (simp add: returns_def vocabulary_draws_def)

lemma returns_column: "returns (column f (Frame rs)) (\<lambda>xs. xs = map f rs) g"
  by (simp add: returns_def)

text \<open>The loop rule: an invariant indexed by the number of iterations done.\<close>

lemma returns_for_each:
  "I 0 s \<Longrightarrow>
   (\<And>k t h. k < length xs \<Longrightarrow> I k t \<Longrightarrow> returns (body (xs ! k) t) (I (Suc k)) h) \<Longrightarrow>
   returns (for_each body xs s) (I (length xs)) g"
proof (induction xs arbitrary: I s g)
  case Nil
  then show ?case by (simp add: returns_def)
next
  case (Cons x xs J s0 g0)
  have "returns (body x s0) (J (Suc 0)) g0"
    using Cons.prems(2) [of 0 s0 g0] Cons.prems(1) by simp
  then obtain s' g' where b: "body x s0 g0 = Inr (s', g')" and i1: "J (Suc 0) s'"
    by (auto dest: returnsD)
  have "returns (for_each body xs s') ((\<lambda>k. J (Suc k)) (length xs)) g'"
  proof (rule Cons.IH)
    show "J (Suc 0) s'" by (rule i1)
  next
    fix k t h
    assume "k < length xs" and "J (Suc k) t"
    then show "returns (body (xs ! k) t) (J (Suc (Suc k))) h"
      using Cons.prems(2) [of "Suc k" t h] by simp
  qed
  then show ?case
    using b by (simp add: returns_def)
qed

subsection \<open>Rules for the primitives\<close>

named_theorems returns_intros

lemma gen_bind_return [simp]: "gen_bind (gen_return x) f = f x"
  by (rule ext) (simp add: gen_bind_def gen_return_def)

lemma gen_bind_assoc [simp]: "gen_bind (gen_bind m f) h = gen_bind m (\<lambda>x. gen_bind (f x) h)"
  by (rule ext) (simp add: gen_bind_def split: sum.splits)

lemma returns_return_iff [simp]: "returns (gen_return x) Q g = Q x"
  by (simp add: returns_def gen_return_def)

lemma returns_if [returns_intros]:
  "(b \<Longrightarrow> returns m Q g) \<Longrightarrow> (\<not> b \<Longrightarrow> returns n Q g) \<Longrightarrow> returns (if b then m else n) Q g"
  by simp

lemma returns_bind_choice [returns_intros]:
  "xs \<noteq> [] \<Longrightarrow> (\<And>x g'. x \<in> set xs \<Longrightarrow> returns (f x) Q g') \<Longrightarrow>
   returns (gen_bind (random_choice xs) f) Q g"
  by (rule returns_bind [OF returns_choice])

lemma returns_bind_coin [returns_intros]:
  "(\<And>b g'. returns (f b) Q g') \<Longrightarrow> returns (gen_bind coin f) Q g"
  by (rule returns_bind [OF returns_coin])

lemma returns_bind_randint [returns_intros]:
  "a \<le> b \<Longrightarrow> (\<And>x g'. a \<le> x \<Longrightarrow> x \<le> b \<Longrightarrow> returns (f x) Q g') \<Longrightarrow>
   returns (gen_bind (random_randint a b) f) Q g"
  by (rule returns_bind [OF returns_randint]) auto

lemma returns_bind_uniform [returns_intros]:
  "a \<le> b \<Longrightarrow> (\<And>x g'. a \<le> x \<Longrightarrow> x \<le> b \<Longrightarrow> returns (f x) Q g') \<Longrightarrow>
   returns (gen_bind (random_uniform a b) f) Q g"
  by (rule returns_bind [OF returns_uniform]) auto

lemma returns_bind_vocabulary [returns_intros]:
  "(\<And>g'. returns (f ()) Q g') \<Longrightarrow> returns (gen_bind (vocabulary_draws k) f) Q g"
  by (rule returns_bind [OF returns_vocabulary]) simp

lemma returns_bind_column:
  "(\<And>g'. returns (f (map c rs)) Q g') \<Longrightarrow> returns (gen_bind (column c (Frame rs)) f) Q g"
  by (rule returns_bind [OF returns_column]) simp

lemma returns_bind_optional_draw [returns_intros]:
  "(\<And>g'. returns (f ()) Q g') \<Longrightarrow> returns (gen_bind optional_draw f) Q g"
  unfolding optional_draw_def gen_bind_assoc
  by (rule returns_bind_coin) (auto intro: returns_bind_vocabulary)

subsection \<open>Frames and loops that append one row per element\<close>

lemma rows_pd_DataFrame [simp]: "rows (pd_DataFrame rs) = rs"
  by (simp add: pd_DataFrame_def)

lemma populated_pd_DataFrame [simp]: "populated (pd_DataFrame rs) = (rs \<noteq> [])"
  by (simp add: pd_DataFrame_def)

lemma populated_rows: "populated df \<Longrightarrow> rows df \<noteq> []"
  by (cases df) simp_all

lemma populated_Frame: "populated df \<Longrightarrow> df = Frame (rows df)"
  by (cases df) simp_all

lemma returns_bind_column_populated [returns_intros]:
  "populated df \<Longrightarrow> (\<And>g'. returns (f (map c (rows df))) Q g') \<Longrightarrow>
   returns (gen_bind (column c df) f) Q g"
  by (cases df) (auto intro: returns_bind_column)

lemma py_range_nonempty [simp]: "(py_range n \<noteq> []) = (1 \<le> n)"
  by (auto simp: py_range_def)

lemma length_py_range [simp]: "length (py_range n) = nat n"
  by (simp add: py_range_def)

lemma list_all2_rightD: "list_all2 P xs ys \<Longrightarrow> y \<in> set ys \<Longrightarrow> \<exists>x\<in>set xs. P x y"
  by (induction rule: list_all2_induct) auto

lemma returns_collect:
  assumes "\<And>x g. x \<in> set xs \<Longrightarrow> returns (row x) (P x) g"
  shows "returns (collect row xs) (\<lambda>rs. list_all2 P xs rs) g"
proof -
  have "returns (for_each (\<lambda>x out. gen_bind (row x) (\<lambda>r. gen_return (out @ [r]))) xs [])
          ((\<lambda>k out. list_all2 P (take k xs) out) (length xs)) g"
  proof (rule returns_for_each)
    show "list_all2 P (take 0 xs) []" by simp
  next
    fix k t h
    assume k: "k < length xs" and inv: "list_all2 P (take k xs) t"
    have "returns (row (xs ! k)) (P (xs ! k)) h"
      using assms k by simp
    then show "returns (gen_bind (row (xs ! k)) (\<lambda>r. gen_return (t @ [r])))
                 (list_all2 P (take (Suc k) xs)) h"
    proof (rule returns_bind)
      fix r g'
      assume "P (xs ! k) r"
      then have "list_all2 P (take k xs @ [xs ! k]) (t @ [r])"
        using inv by (simp add: list_all2_appendI)
      then show "returns (gen_return (t @ [r])) (list_all2 P (take (Suc k) xs)) g'"
        using k by (simp add: take_Suc_conv_app_nth)
    qed
  qed
  then show ?thesis by (simp add: collect_def)
qed

lemma returns_frame_of_collect:
  assumes "\<And>x g. x \<in> set xs \<Longrightarrow> returns (row x) (P x) g"
  shows "returns (gen_bind (collect row xs) (\<lambda>out. gen_return (pd_DataFrame out)))
           (\<lambda>df. populated df = (xs \<noteq> []) \<and> list_all2 P xs (rows df)) g"
proof (rule returns_bind [OF returns_collect [where P = P]])
  show "\<And>x g. x \<in> set xs \<Longrightarrow> returns (row x) (P x) g" by (rule assms)
next
  fix rs g'
  assume "list_all2 P xs rs"
  then show "returns (gen_return (pd_DataFrame rs))
               (\<lambda>df. populated df = (xs \<noteq> []) \<and> list_all2 P xs (rows df)) g'"
    by (auto dest: list_all2_lengthD)
qed

subsection \<open>Technicians\<close>

lemma returns_base_skill:
  "level \<in> set levels \<Longrightarrow>
   returns (base_skill_of level) (\<lambda>b. map_of base_skill_table level = Some b) g"
  by (auto simp: levels_def base_skill_of_def base_skill_table_def)

lemma returns_skill_loop:
  assumes "map_of base_skill_table level = Some b"
  shows "returns (for_each (skill_step b) cols [])
           (\<lambda>acc. map fst acc = cols \<and>
              (\<forall>(c, v)\<in>set acc. 1 \<le> v \<and> v \<le> 10 \<and> skill_from_tier level v)) g"
proof -
  let ?I = "\<lambda>k acc. map fst acc = take k cols \<and>
              (\<forall>(c, v)\<in>set acc. 1 \<le> v \<and> v \<le> 10 \<and> skill_from_tier level v)"
  have "returns (for_each (skill_step b) cols []) (?I (length cols)) g"
  proof (rule returns_for_each)
    show "?I 0 []" by simp
  next
    fix k acc h
    assume k: "k < length cols" and inv: "?I k acc"
    have "returns (random_randint (- 2) 2) (\<lambda>x. - 2 \<le> x \<and> x \<le> 2) h"
      by (rule returns_randint) simp
    then show "returns (skill_step b (cols ! k) acc) (?I (Suc k)) h"
      unfolding skill_step_def
    proof (rule returns_bind)
      fix x :: int and g' :: rng
      assume x: "- 2 \<le> x \<and> x \<le> 2"
      then have "skill_from_tier level (max 1 (min 10 (b + x)))"
        using assms by (auto simp: skill_from_tier_def)
      then show "returns (gen_return (acc @ [(cols ! k, max 1 (min 10 (b + x)))])) (?I (Suc k)) g'"
        using inv k by (auto simp: take_Suc_conv_app_nth)
    qed
  qed
  then show ?thesis by simp
qed

lemma returns_technician_row:
  "returns (technician_row tid) (\<lambda>t. technician_id t = tid \<and> skills_ok t) g"
  unfolding technician_row_def
proof (rule returns_bind_choice)
  show "levels \<noteq> []" by (simp add: levels_def)
next
  fix level g1
  assume "level \<in> set levels"
  then have "returns (base_skill_of level) (\<lambda>b. map_of base_skill_table level = Some b) g1"
    by (rule returns_base_skill)
  then show "returns (gen_bind (base_skill_of level) (\<lambda>base_skill.
                gen_bind (for_each (skill_step base_skill) skill_columns []) (\<lambda>skills.
                gen_bind (vocabulary_draws 3) (\<lambda>_.
                  gen_return \<lparr>technician_id = tid, technician_level = level,
                              technician_skills = skills\<rparr>))))
              (\<lambda>t. technician_id t = tid \<and> skills_ok t) g1"
  proof (rule returns_bind)
    fix b g2
    assume b: "map_of base_skill_table level = Some b"
    show "returns (gen_bind (for_each (skill_step b) skill_columns []) (\<lambda>skills.
                gen_bind (vocabulary_draws 3) (\<lambda>_.
                  gen_return \<lparr>technician_id = tid, technician_level = level,
                              technician_skills = skills\<rparr>)))
              (\<lambda>t. technician_id t = tid \<and> skills_ok t) g2"
      by (rule returns_bind [OF returns_skill_loop [OF b]], rule returns_bind_vocabulary)
         (simp add: skills_ok_def)
  qed
qed

lemma returns_generate_technicians:
  "returns (generate_technicians n)
     (\<lambda>df. populated df = (1 \<le> n) \<and>
        list_all2 (\<lambda>i t. technician_id t = int i + 1 \<and> skills_ok t) (py_range n) (rows df)) g"
  unfolding generate_technicians_def
  using returns_frame_of_collect
    [where P = "\<lambda>i t. technician_id t = int i + 1 \<and> skills_ok t" and xs = "py_range n"]
  by (simp add: returns_technician_row)

lemma returns_generate_technicians_incremental:
  "returns (generate_technicians_incremental n start_id)
     (\<lambda>df. populated df = (1 \<le> n) \<and>
        list_all2 (\<lambda>i t. technician_id t = start_id + int i \<and> skills_ok t)
          (py_range n) (rows df)) g"
  unfolding generate_technicians_incremental_def
  using returns_frame_of_collect
    [where P = "\<lambda>i t. technician_id t = start_id + int i \<and> skills_ok t" and xs = "py_range n"]
  by (simp add: returns_technician_row)

lemma returns_table:
  assumes "\<And>x g. x \<in> set xs \<Longrightarrow> returns (row x) (P x) g"
    and "\<And>df. populated df = (xs \<noteq> []) \<Longrightarrow> list_all2 P xs (rows df) \<Longrightarrow> Q df"
  shows "returns (gen_bind (collect row xs) (\<lambda>out. gen_return (pd_DataFrame out))) Q g"
  by (rule returns_weaken [OF returns_frame_of_collect [where P = P]]) (auto intro: assms)

lemma gen_bind_if:
  "gen_bind (if b then m else n) f = (if b then gen_bind m f else gen_bind n f)"
  by simp

subsection \<open>Base tables\<close>

lemma returns_customer_row: "returns (customer_row cid) (\<lambda>r. customer_id r = cid) g"
  unfolding customer_row_def by (intro returns_intros) simp

lemma returns_equipment_row: "returns (equipment_row eid) (\<lambda>r. equipment_id r = eid) g"
  unfolding equipment_row_def by (intro returns_intros) simp

lemma returns_part_row: "returns (part_row pid) (\<lambda>r. part_id r = pid) g"
  unfolding part_row_def by (intro returns_intros) simp_all

lemma returns_generate_customers:
  "returns (generate_customers n)
     (\<lambda>df. populated df = (1 \<le> n) \<and>
        list_all2 (\<lambda>i r. customer_id r = int i + 1) (py_range n) (rows df)) g"
  unfolding generate_customers_def
  by (rule returns_table [where P = "\<lambda>i r. customer_id r = int i + 1"])
     (simp_all add: returns_customer_row)

lemma returns_generate_customers_incremental:
  "returns (generate_customers_incremental n start_id)
     (\<lambda>df. populated df = (1 \<le> n) \<and>
        list_all2 (\<lambda>i r. customer_id r = start_id + int i) (py_range n) (rows df)) g"
  unfolding generate_customers_incremental_def
  by (rule returns_table [where P = "\<lambda>i r. customer_id r = start_id + int i"])
     (simp_all add: returns_customer_row)

lemma returns_generate_equipment_types:
  "returns (generate_equipment_types n)
     (\<lambda>df. populated df = (1 \<le> n) \<and>
        list_all2 (\<lambda>i r. equipment_id r = int i + 1) (py_range n) (rows df)) g"
  unfolding generate_equipment_types_def
  by (rule returns_table [where P = "\<lambda>i r. equipment_id r = int i + 1"])
     (simp_all add: returns_equipment_row)

lemma returns_generate_equipment_types_incremental:
  "returns (generate_equipment_types_incremental n start_id)
     (\<lambda>df. populated df = (1 \<le> n) \<and>
        list_all2 (\<lambda>i r. equipment_id r = start_id + int i) (py_range n) (rows df)) g"
  unfolding generate_equipment_types_incremental_def
  by (rule returns_table [where P = "\<lambda>i r. equipment_id r = start_id + int i"])
     (simp_all add: returns_equipment_row)

lemma returns_generate_parts:
  "returns (generate_parts n)
     (\<lambda>df. populated df = (1 \<le> n) \<and>
        list_all2 (\<lambda>i r. part_id r = int i + 1) (py_range n) (rows df)) g"
  unfolding generate_parts_def
  by (rule returns_table [where P = "\<lambda>i r. part_id r = int i + 1"])
     (simp_all add: returns_part_row)

lemma returns_generate_parts_incremental:
  "returns (generate_parts_incremental n start_id)
     (\<lambda>df. populated df = (1 \<le> n) \<and>
        list_all2 (\<lambda>i r. part_id r = start_id + int i) (py_range n) (rows df)) g"
  unfolding generate_parts_incremental_def
  by (rule returns_table [where P = "\<lambda>i r. part_id r = start_id + int i"])
     (simp_all add: returns_part_row)

subsection \<open>Tables that draw their foreign keys\<close>

lemma returns_installation_row:
  assumes "populated c" "populated e"
  shows "returns (installation_row c e i)
           (\<lambda>r. installation_id r = int i + 1 \<and>
                inst_customer_id r \<in> customer_id ` set (rows c) \<and>
                inst_equipment_id r \<in> equipment_id ` set (rows e)) g"
  unfolding installation_row_def
  apply (intro returns_intros)
  using assms apply (simp_all add: populated_rows)
  done

lemma returns_generate_installed_devices:
  assumes "populated c" "populated e"
  shows "returns (generate_installed_devices c e n)
     (\<lambda>df. populated df = (1 \<le> n) \<and>
        list_all2 (\<lambda>i r. installation_id r = int i + 1 \<and>
                inst_customer_id r \<in> customer_id ` set (rows c) \<and>
                inst_equipment_id r \<in> equipment_id ` set (rows e)) (py_range n) (rows df)) g"
  unfolding generate_installed_devices_def
  by (rule returns_table [where P = "\<lambda>i r. installation_id r = int i + 1 \<and>
                inst_customer_id r \<in> customer_id ` set (rows c) \<and>
                inst_equipment_id r \<in> equipment_id ` set (rows e)"])
     (simp_all add: returns_installation_row [OF assms])

lemma py_round_of_int: "py_round (of_int q / 10 ^ n) n = of_int q / 10 ^ n"
  by (simp add: py_round_def Let_def)

lemma py_round_idem: "py_round (py_round x n) n = py_round x n"
proof -
  obtain q :: int where "py_round x n = of_int q / 10 ^ n"
    unfolding py_round_def Let_def by blast
  then show ?thesis by (simp add: py_round_of_int)
qed

lemma returns_service_call_row:
  assumes "populated c" "populated t" "populated e"
  shows "returns (service_call_row c t e scid) (service_call_row_ok c t e scid) g"
  unfolding service_call_row_def
  apply (intro returns_intros)
  using assms apply (simp_all add: service_types_def service_call_row_ok_def populated_rows
      two_decimals_def py_round_idem)
  done

lemma returns_assign_total_cost:
  assumes "list_all2 P xs out" "xs \<noteq> []"
    and "\<And>x r. P x r \<Longrightarrow> Q x (r\<lparr>total_cost := labor_cost r + parts_cost r\<rparr>)"
  shows "returns (assign_total_cost (pd_DataFrame out))
           (\<lambda>df. populated df \<and> list_all2 Q xs (rows df)) g"
proof -
  have ne: "out \<noteq> []" using assms(1,2) by (auto dest: list_all2_lengthD)
  have "list_all2 Q xs (map (\<lambda>r. r\<lparr>total_cost := labor_cost r + parts_cost r\<rparr>) out)"
    using assms(1,3) by (simp add: list_all2_map2 list_all2_mono)
  then show ?thesis
    using ne by (simp add: returns_def pd_DataFrame_def)
qed

lemma returns_generate_service_calls:
  assumes "populated c" "populated t" "populated e" "1 \<le> n"
  shows "returns (generate_service_calls c t e n)
     (\<lambda>df. populated df \<and>
        list_all2 (\<lambda>i r. service_call_row_ok c t e (int i + 1) r \<and>
                         total_cost r = labor_cost r + parts_cost r) (py_range n) (rows df)) g"
  unfolding generate_service_calls_def
proof (rule returns_bind [OF returns_collect
        [where P = "\<lambda>i. service_call_row_ok c t e (int i + 1)"]])
  show "\<And>x g. returns (service_call_row c t e (int x + 1)) (service_call_row_ok c t e (int x + 1)) g"
    by (rule returns_service_call_row [OF assms(1-3)])
next
  fix out g'
  assume "list_all2 (\<lambda>i. service_call_row_ok c t e (int i + 1)) (py_range n) out"
  then show "returns (assign_total_cost (pd_DataFrame out))
     (\<lambda>df. populated df \<and>
        list_all2 (\<lambda>i r. service_call_row_ok c t e (int i + 1) r \<and>
                         total_cost r = labor_cost r + parts_cost r) (py_range n) (rows df)) g'"
    by (rule returns_assign_total_cost) (use assms(4) in \<open>simp_all add: service_call_row_ok_def\<close>)
qed

lemma returns_generate_service_calls_incremental:
  assumes "populated c" "populated t" "populated e" "1 \<le> n"
  shows "returns (generate_service_calls_incremental n start_id c t e)
     (\<lambda>df. populated df \<and>
        list_all2 (\<lambda>i r. service_call_row_ok c t e (start_id + int i) r \<and>
                         total_cost r = labor_cost r + parts_cost r) (py_range n) (rows df)) g"
  unfolding generate_service_calls_incremental_def
proof (rule returns_bind [OF returns_collect
        [where P = "\<lambda>i. service_call_row_ok c t e (start_id + int i)"]])
  show "\<And>x g. returns (service_call_row c t e (start_id + int x))
          (service_call_row_ok c t e (start_id + int x)) g"
    by (rule returns_service_call_row [OF assms(1-3)])
next
  fix out g'
  assume "list_all2 (\<lambda>i. service_call_row_ok c t e (start_id + int i)) (py_range n) out"
  then show "returns (assign_total_cost (pd_DataFrame out))
     (\<lambda>df. populated df \<and>
        list_all2 (\<lambda>i r. service_call_row_ok c t e (start_id + int i) r \<and>
                         total_cost r = labor_cost r + parts_cost r) (py_range n) (rows df)) g'"
    by (rule returns_assign_total_cost) (use assms(4) in \<open>simp_all add: service_call_row_ok_def\<close>)
qed

subsection \<open>Incident response, vehicles, subscriptions, quotes\<close>

lemma returns_incident_row:
  assumes "populated t" "i < length em"
  shows "returns (incident_row em t i)
           (\<lambda>r. incident_id r = int i + 1 \<and> incident_of t (em ! i) r) g"
  unfolding incident_row_def Let_def gen_bind_if gen_bind_assoc gen_bind_return
  apply (intro returns_intros)
  using assms apply (simp_all add: populated_rows incident_of_def)
  done

lemma returns_emergency_calls_of:
  "returns (emergency_calls_of (Frame cs))
     (\<lambda>em. em = filter (\<lambda>c. service_type c = ''Emergency'') cs) g"
  unfolding emergency_calls_of_def
  by (rule returns_bind_column) simp

lemma returns_generate_incident_response:
  assumes "populated t"
  shows "returns (generate_incident_response (Frame cs) t n)
     (\<lambda>df. list_all2 (\<lambda>i r. incident_id r = int i + 1 \<and>
                 incident_of t (filter (\<lambda>c. service_type c = ''Emergency'') cs ! i) r)
              (py_range (min n (int (length (filter (\<lambda>c. service_type c = ''Emergency'') cs)))))
              (rows df)) g"
  unfolding generate_incident_response_def
proof (rule returns_bind [OF returns_emergency_calls_of])
  fix em g'
  assume em: "em = filter (\<lambda>c. service_type c = ''Emergency'') cs"
  show "returns (gen_bind (collect (incident_row em t) (py_range (min n (int (length em)))))
                  (\<lambda>out. gen_return (pd_DataFrame out)))
     (\<lambda>df. list_all2 (\<lambda>i r. incident_id r = int i + 1 \<and>
                 incident_of t (filter (\<lambda>c. service_type c = ''Emergency'') cs ! i) r)
              (py_range (min n (int (length (filter (\<lambda>c. service_type c = ''Emergency'') cs)))))
              (rows df)) g'"
  proof (rule returns_table
          [where P = "\<lambda>i r. incident_id r = int i + 1 \<and> incident_of t (em ! i) r"])
    fix i h
    assume "i \<in> set (py_range (min n (int (length em))))"
    then have "i < length em" by (auto simp: py_range_def)
    then show "returns (incident_row em t i)
                 (\<lambda>r. incident_id r = int i + 1 \<and> incident_of t (em ! i) r) h"
      by (rule returns_incident_row [OF assms])
  qed (simp add: em)
qed

lemma returns_vehicle_row:
  assumes "populated t"
  shows "returns (vehicle_row t i)
           (\<lambda>r. vehicle_id r = int i + 1 \<and>
                optional_ref (assigned_technician_id r) (technician_id ` set (rows t))) g"
  unfolding vehicle_row_def gen_bind_if gen_bind_assoc gen_bind_return
  apply (intro returns_intros)
  using assms apply (simp_all add: populated_rows optional_ref_def)
  done

lemma returns_generate_vehicle_fleet:
  assumes "populated t"
  shows "returns (generate_vehicle_fleet t n)
     (\<lambda>df. populated df = (1 \<le> n) \<and>
        list_all2 (\<lambda>i r. vehicle_id r = int i + 1 \<and>
                optional_ref (assigned_technician_id r) (technician_id ` set (rows t)))
          (py_range n) (rows df)) g"
  unfolding generate_vehicle_fleet_def
  by (rule returns_table [where P = "\<lambda>i r. vehicle_id r = int i + 1 \<and>
                optional_ref (assigned_technician_id r) (technician_id ` set (rows t))"])
     (simp_all add: returns_vehicle_row [OF assms])

lemma returns_subscription_row:
  assumes "populated c"
  shows "returns (subscription_row c i)
           (\<lambda>r. subscription_id r = int i + 1 \<and>
                sub_customer_id r \<in> customer_id ` set (rows c)) g"
  unfolding subscription_row_def
  apply (intro returns_intros)
  using assms apply (simp_all add: populated_rows)
  done

lemma returns_generate_subscriptions:
  assumes "populated c"
  shows "returns (generate_subscriptions c n)
     (\<lambda>df. populated df = (1 \<le> n) \<and>
        list_all2 (\<lambda>i r. subscription_id r = int i + 1 \<and>
                sub_customer_id r \<in> customer_id ` set (rows c)) (py_range n) (rows df)) g"
  unfolding generate_subscriptions_def
  by (rule returns_table [where P = "\<lambda>i r. subscription_id r = int i + 1 \<and>
                sub_customer_id r \<in> customer_id ` set (rows c)"])
     (simp_all add: returns_subscription_row [OF assms])

lemma returns_quote_row:
  assumes "populated c" "populated e"
  shows "returns (quote_row c e i)
           (\<lambda>r. quote_id r = int i + 1 \<and>
                q_customer_id r \<in> customer_id ` set (rows c) \<and>
                optional_ref (q_equipment_id r) (equipment_id ` set (rows e))) g"
  unfolding quote_row_def gen_bind_if gen_bind_assoc gen_bind_return
  apply (intro returns_intros)
  using assms apply (simp_all add: populated_rows optional_ref_def)
  done

lemma returns_generate_quotes:
  assumes "populated c" "populated e"
  shows "returns (generate_quotes c e n)
     (\<lambda>df. populated df = (1 \<le> n) \<and>
        list_all2 (\<lambda>i r. quote_id r = int i + 1 \<and>
                q_customer_id r \<in> customer_id ` set (rows c) \<and>
                optional_ref (q_equipment_id r) (equipment_id ` set (rows e)))
          (py_range n) (rows df)) g"
  unfolding generate_quotes_def
  by (rule returns_table [where P = "\<lambda>i r. quote_id r = int i + 1 \<and>
                q_customer_id r \<in> customer_id ` set (rows c) \<and>
                optional_ref (q_equipment_id r) (equipment_id ` set (rows e))"])
     (simp_all add: returns_quote_row [OF assms])

subsection \<open>Tables with one row per row of a parent\<close>

lemma returns_generate_inventory:
  "returns (generate_inventory p)
     (\<lambda>df. populated df = (rows p \<noteq> []) \<and>
        list_all2 (\<lambda>x r. inventory_id r = part_id x \<and> stock_part_id r = part_id x)
          (rows p) (rows df)) g"
  unfolding generate_inventory_def
  by (rule returns_table [where P = "\<lambda>x r. inventory_id r = part_id x \<and> stock_part_id r = part_id x"])
     (auto intro!: returns_intros)

lemma returns_generate_work_orders:
  "returns (generate_work_orders sc t)
     (\<lambda>df. populated df = (rows sc \<noteq> []) \<and>
        list_all2 (\<lambda>x r. work_order_id r = service_call_id x \<and>
                         wo_service_call_id r = service_call_id x \<and>
                         wo_technician_id r = sc_technician_id x) (rows sc) (rows df)) g"
  unfolding generate_work_orders_def
  by (rule returns_table [where P = "\<lambda>x r. work_order_id r = service_call_id x \<and>
                         wo_service_call_id r = service_call_id x \<and>
                         wo_technician_id r = sc_technician_id x"])
     (auto intro!: returns_intros)

lemma returns_generate_leads:
  "returns (generate_leads n)
     (\<lambda>df. populated df = (1 \<le> n) \<and>
        list_all2 (\<lambda>i r. lead_id r = int i + 1) (py_range n) (rows df)) g"
  unfolding generate_leads_def
  by (rule returns_table [where P = "\<lambda>i r. lead_id r = int i + 1"])
     (auto intro!: returns_intros)

subsection \<open>Dense keys\<close>

lemma map_upt_upto: "map (\<lambda>i. s + int i) [0..<k] = [s..s + int k - 1]"
proof (induction k)
  case 0
  then show ?case by simp
next
  case (Suc k)
  have "[s..s + int (Suc k) - 1] = [s..s + int k - 1] @ [s + int k]"
    using upto_rec2 [of s "s + int k"] by simp
  then show ?case using Suc by simp
qed

lemma ids_of_range:
  assumes "list_all2 (\<lambda>i r. f r = s + int i) (py_range n) rs"
  shows "map f rs = [s..s + n - 1]"
proof -
  have "map f rs = map (\<lambda>i. s + int i) (py_range n)"
    using assms by (induction rule: list_all2_induct) auto
  also have "\<dots> = [s..s + int (nat n) - 1]"
    by (simp add: py_range_def map_upt_upto)
  also have "\<dots> = [s..s + n - 1]"
    by (cases "0 \<le> n") simp_all
  finally show ?thesis .
qed

lemma ids_append:
  "map f out = [1..int (length out)] \<Longrightarrow> f r = int (length out) + 1 \<Longrightarrow>
   map f (out @ [r]) = [1..int (length (out @ [r]))]"
  using upto_rec2 [of 1 "int (length out) + 1"] by (simp add: ac_simps)

subsection \<open>Samples\<close>

lemma sample_list_props:
  "k \<le> length xs \<Longrightarrow> sample_list k xs g = (ys, g') \<Longrightarrow> length ys = k \<and> set ys \<subseteq> set xs"
proof (induction k arbitrary: xs g ys g')
  case 0
  then show ?case by simp
next
  case (Suc k)
  let ?i = "g 0 mod length xs"
  let ?rest = "take ?i xs @ drop (Suc ?i) xs"
  have ne: "xs \<noteq> []" using Suc.prems(1) by auto
  then have i: "?i < length xs" by simp
  obtain zs h where s: "sample_list k ?rest (advance 1 g) = (zs, h)"
    by (cases "sample_list k ?rest (advance 1 g)")
  have "length ?rest = length xs - 1" using i by simp
  then have "k \<le> length ?rest" using Suc.prems(1) by simp
  from Suc.IH [OF this s] have zs: "length zs = k" "set zs \<subseteq> set ?rest" by simp_all
  have "set ?rest \<subseteq> set xs"
    using set_take_subset [of ?i xs] set_drop_subset [of "Suc ?i" xs] by auto
  moreover have "ys = xs ! ?i # zs"
    using Suc.prems(2) s by (simp add: Let_def)
  ultimately show ?case using zs i by auto
qed

lemma returns_df_sample:
  assumes "0 \<le> k" "k \<le> int (length (rows df))"
  shows "returns (df_sample k df) (\<lambda>ys. length ys = nat k \<and> set ys \<subseteq> set (rows df)) g"
proof -
  obtain ys g' where s: "sample_list (nat k) (rows df) g = (ys, g')"
    by (cases "sample_list (nat k) (rows df) g")
  have "nat k \<le> length (rows df)" using assms by simp
  from sample_list_props [OF this s] show ?thesis
    using assms s by (simp add: returns_def df_sample_def)
qed

lemma enumerate_rows_props:
  "length (enumerate_rows xs) = length xs"
  "map snd (enumerate_rows xs) = xs"
  "map fst (enumerate_rows xs) = [0..<length xs]"
  by (simp_all add: enumerate_rows_def)

lemma list_all2_enumerate:
  assumes "list_all2 (\<lambda>ic r. P (fst ic) (snd ic) r) (enumerate_rows xs) rs"
  shows "list_all2 (\<lambda>x r. \<exists>i. P i x r) xs rs"
    and "list_all2 (\<lambda>i r. \<exists>x. P i x r) [0..<length xs] rs"
proof -
  have l: "length rs = length xs"
    using assms by (auto dest: list_all2_lengthD simp: enumerate_rows_def)
  have n: "\<And>k. k < length xs \<Longrightarrow> P k (xs ! k) (rs ! k)"
    using assms l by (auto simp: list_all2_conv_all_nth enumerate_rows_def)
  show "list_all2 (\<lambda>x r. \<exists>i. P i x r) xs rs"
    using l n by (auto simp: list_all2_conv_all_nth)
  show "list_all2 (\<lambda>i r. \<exists>x. P i x r) [0..<length xs] rs"
    using l n by (auto simp: list_all2_conv_all_nth)
qed

subsection \<open>Invoices and feedback\<close>

lemma returns_invoice_row:
  "returns (invoice_row (i, call))
     (\<lambda>r. invoice_id r = int i + 1 \<and> invoice_of call r) g"
  unfolding invoice_row_def prod.case Let_def
  apply (intro returns_intros)
  apply (auto simp: invoice_of_def tax_rates_def invoice_status_def)
  done

lemma returns_generate_invoices:
  assumes "0 \<le> invoice_count sc n"
  shows "returns (generate_invoices sc c n)
     (\<lambda>df. \<exists>sel. length sel = nat (invoice_count sc n) \<and> set sel \<subseteq> set (rows sc) \<and>
        populated df = (sel \<noteq> []) \<and>
        list_all2 (\<lambda>ic r. invoice_id r = int (fst ic) + 1 \<and> invoice_of (snd ic) r)
          (enumerate_rows sel) (rows df)) g"
proof -
  have le: "invoice_count sc n \<le> int (length (rows sc))"
    by (simp add: invoice_count_def Let_def)
  have "returns (gen_bind (df_sample (invoice_count sc n) sc) (\<lambda>selected_calls.
         gen_bind (collect invoice_row (enumerate_rows selected_calls))
           (\<lambda>out. gen_return (pd_DataFrame out))))
     (\<lambda>df. \<exists>sel. length sel = nat (invoice_count sc n) \<and> set sel \<subseteq> set (rows sc) \<and>
        populated df = (sel \<noteq> []) \<and>
        list_all2 (\<lambda>ic r. invoice_id r = int (fst ic) + 1 \<and> invoice_of (snd ic) r)
          (enumerate_rows sel) (rows df)) g"
  proof (rule returns_bind [OF returns_df_sample [OF assms le]])
    fix sel g'
    assume sel: "length sel = nat (invoice_count sc n) \<and> set sel \<subseteq> set (rows sc)"
    show "returns (gen_bind (collect invoice_row (enumerate_rows sel))
           (\<lambda>out. gen_return (pd_DataFrame out)))
     (\<lambda>df. \<exists>sel. length sel = nat (invoice_count sc n) \<and> set sel \<subseteq> set (rows sc) \<and>
        populated df = (sel \<noteq> []) \<and>
        list_all2 (\<lambda>ic r. invoice_id r = int (fst ic) + 1 \<and> invoice_of (snd ic) r)
          (enumerate_rows sel) (rows df)) g'"
    proof (rule returns_table
        [where P = "\<lambda>ic r. invoice_id r = int (fst ic) + 1 \<and> invoice_of (snd ic) r"])
      fix x h
      show "returns (invoice_row x)
              (\<lambda>r. invoice_id r = int (fst x) + 1 \<and> invoice_of (snd x) r) h"
        using returns_invoice_row [of "fst x" "snd x" h] by simp
    next
      fix df
      assume "populated df = (enumerate_rows sel \<noteq> [])"
        and "list_all2 (\<lambda>ic r. invoice_id r = int (fst ic) + 1 \<and> invoice_of (snd ic) r)
               (enumerate_rows sel) (rows df)"
      then show "\<exists>sel. length sel = nat (invoice_count sc n) \<and> set sel \<subseteq> set (rows sc) \<and>
        populated df = (sel \<noteq> []) \<and>
        list_all2 (\<lambda>ic r. invoice_id r = int (fst ic) + 1 \<and> invoice_of (snd ic) r)
          (enumerate_rows sel) (rows df)"
        using sel by (intro exI [of _ sel]) (auto simp: enumerate_rows_def)
    qed
  qed
  then show ?thesis
    by (simp add: generate_invoices_def invoice_count_def Let_def)
qed

lemma returns_generate_customer_feedback:
  assumes "0 \<le> n"
  shows "returns (generate_customer_feedback sc c n)
     (\<lambda>df. \<exists>sel. length sel = nat (min n (int (length (rows sc)))) \<and> set sel \<subseteq> set (rows sc) \<and>
        populated df = (sel \<noteq> []) \<and>
        list_all2 (\<lambda>ic r. feedback_id r = int (fst ic) + 1 \<and> feedback_of (snd ic) r)
          (enumerate_rows sel) (rows df)) g"
  unfolding generate_customer_feedback_def
proof (rule returns_bind [OF returns_df_sample])
  show "0 \<le> min n (int (length (rows sc)))" using assms by simp
  show "min n (int (length (rows sc))) \<le> int (length (rows sc))" by simp
next
  fix sel g'
  assume sel: "length sel = nat (min n (int (length (rows sc)))) \<and> set sel \<subseteq> set (rows sc)"
  show "returns (gen_bind (collect feedback_row (enumerate_rows sel))
           (\<lambda>out. gen_return (pd_DataFrame out)))
     (\<lambda>df. \<exists>sel. length sel = nat (min n (int (length (rows sc)))) \<and> set sel \<subseteq> set (rows sc) \<and>
        populated df = (sel \<noteq> []) \<and>
        list_all2 (\<lambda>ic r. feedback_id r = int (fst ic) + 1 \<and> feedback_of (snd ic) r)
          (enumerate_rows sel) (rows df)) g'"
  proof (rule returns_table
      [where P = "\<lambda>ic r. feedback_id r = int (fst ic) + 1 \<and> feedback_of (snd ic) r"])
    fix x h
    show "returns (feedback_row x)
            (\<lambda>r. feedback_id r = int (fst x) + 1 \<and> feedback_of (snd x) r) h"
      unfolding feedback_row_def
      by (cases x) (auto intro!: returns_intros simp: feedback_of_def)
  next
    fix df
    assume "populated df = (enumerate_rows sel \<noteq> [])"
      and "list_all2 (\<lambda>ic r. feedback_id r = int (fst ic) + 1 \<and> feedback_of (snd ic) r)
             (enumerate_rows sel) (rows df)"
    then show "\<exists>sel. length sel = nat (min n (int (length (rows sc)))) \<and> set sel \<subseteq> set (rows sc) \<and>
        populated df = (sel \<noteq> []) \<and>
        list_all2 (\<lambda>ic r. feedback_id r = int (fst ic) + 1 \<and> feedback_of (snd ic) r)
          (enumerate_rows sel) (rows df)"
      using sel by (intro exI [of _ sel]) (auto simp: enumerate_rows_def)
  qed
qed

lemma returns_for_each_inv:
  assumes "I s" and "\<And>x t h. x \<in> set xs \<Longrightarrow> I t \<Longrightarrow> returns (body x t) I h"
  shows "returns (for_each body xs s) I g"
  using returns_for_each [where I = "\<lambda>k. I" and s = s and xs = xs and body = body and g = g]
    assms by simp

lemma upto_1_Suc: "0 \<le> m \<Longrightarrow> [1..1 + m] = [1..m] @ [1 + m]"
  using upto_rec2 [of 1 "1 + m"] by simp

subsection \<open>Parts usage\<close>

lemma returns_parts_usage_step:
  assumes "populated p" "call \<in> set (rows sc)"
    and "map usage_id out = [1..int (length out)] \<and> (\<forall>r\<in>set out. usage_ok sc p r)"
  shows "returns (parts_usage_step p call j out)
           (\<lambda>out. map usage_id out = [1..int (length out)] \<and> (\<forall>r\<in>set out. usage_ok sc p r)) g"
  unfolding parts_usage_step_def
  apply (intro returns_intros)
  using assms apply (simp_all add: populated_rows)
  apply (auto simp: usage_ok_def upto_1_Suc)
  done

lemma returns_parts_usage_call:
  assumes "populated p" "call \<in> set (rows sc)" "0 \<le> avg"
    and "map usage_id out = [1..int (length out)] \<and> (\<forall>r\<in>set out. usage_ok sc p r)"
  shows "returns (parts_usage_call p avg call out)
           (\<lambda>out. map usage_id out = [1..int (length out)] \<and> (\<forall>r\<in>set out. usage_ok sc p r)) g"
  unfolding parts_usage_call_def
proof (rule returns_bind_randint)
  show "0 \<le> avg * 2" using assms(3) by simp
next
  fix x g'
  show "returns (for_each (parts_usage_step p call) (py_range x) out)
          (\<lambda>out. map usage_id out = [1..int (length out)] \<and> (\<forall>r\<in>set out. usage_ok sc p r)) g'"
    by (rule returns_for_each_inv
          [where I = "\<lambda>out. map usage_id out = [1..int (length out)] \<and>
                        (\<forall>r\<in>set out. usage_ok sc p r)"])
       (simp_all add: assms(4) returns_parts_usage_step [OF assms(1,2)])
qed

lemma returns_generate_parts_usage:
  assumes "populated p" "0 \<le> avg"
  shows "returns (generate_parts_usage sc p avg)
           (\<lambda>df. map usage_id (rows df) = [1..int (length (rows df))] \<and>
                 (\<forall>r\<in>set (rows df). usage_ok sc p r)) g"
  unfolding generate_parts_usage_def
proof (rule returns_bind)
  show "returns (for_each (parts_usage_call p avg) (rows sc) [])
          (\<lambda>out. map usage_id out = [1..int (length out)] \<and> (\<forall>r\<in>set out. usage_ok sc p r)) g"
    by (rule returns_for_each_inv
          [where I = "\<lambda>out. map usage_id out = [1..int (length out)] \<and>
                        (\<forall>r\<in>set out. usage_ok sc p r)"])
       (simp_all add: returns_parts_usage_call [OF assms(1) _ assms(2)])
qed simp

subsection \<open>Mailing list\<close>

lemma returns_generate_mailing_list:
  "returns (generate_mailing_list c n)
     (\<lambda>df. length (rows df) = length (rows c) + nat n \<and>
           map contact_id (rows df) = [1..int (length (rows df))] \<and>
           (\<forall>r\<in>set (rows df). optional_ref (ml_customer_id r) (customer_id ` set (rows c)))) g"
  unfolding generate_mailing_list_def
proof (rule returns_bind)
  let ?I = "\<lambda>k (out :: contact list). length out = k \<and> map contact_id out = [1..int (length out)] \<and>
              (\<forall>r\<in>set out. optional_ref (ml_customer_id r) (customer_id ` set (rows c)))"
  show "returns (for_each (\<lambda>c out. gen_bind (vocabulary_draws 3)
                   (\<lambda>_. gen_return (out @ [\<lparr>contact_id = int (length out) + 1,
                                             ml_customer_id = Some (customer_id c)\<rparr>])))
                 (rows c) []) (?I (length (rows c))) g"
  proof (rule returns_for_each)
    show "?I 0 []" by simp
  next
    fix k out h
    assume "k < length (rows c)" and "?I k out"
    then show "returns (gen_bind (vocabulary_draws 3)
                   (\<lambda>_. gen_return (out @ [\<lparr>contact_id = int (length out) + 1,
                                             ml_customer_id = Some (customer_id (rows c ! k))\<rparr>])))
                 (?I (Suc k)) h"
      by (intro returns_intros) (auto simp: optional_ref_def upto_1_Suc)
  qed
next
  fix existing :: "contact list" and g' :: rng
  let ?m = "length (rows c)"
  let ?I = "\<lambda>k (out :: contact list). length out = ?m + k \<and> map contact_id out = [1..int (length out)] \<and>
              (\<forall>r\<in>set out. optional_ref (ml_customer_id r) (customer_id ` set (rows c)))"
  assume ex: "length existing = ?m \<and> map contact_id existing = [1..int (length existing)] \<and>
              (\<forall>r\<in>set existing. optional_ref (ml_customer_id r) (customer_id ` set (rows c)))"
  have "returns (for_each (\<lambda>i out. gen_bind (vocabulary_draws 4)
                   (\<lambda>_. gen_return (out @ [\<lparr>contact_id = int (length out) + 1,
                                             ml_customer_id = None\<rparr>])))
                 (py_range n) existing) (?I (length (py_range n))) g'"
  proof (rule returns_for_each)
    show "?I 0 existing" using ex by simp
  next
    fix k out h
    assume "k < length (py_range n)" and "?I k out"
    then show "returns (gen_bind (vocabulary_draws 4)
                   (\<lambda>_. gen_return (out @ [\<lparr>contact_id = int (length out) + 1,
                                             ml_customer_id = None\<rparr>])))
                 (?I (Suc k)) h"
      by (intro returns_intros) (auto simp: optional_ref_def upto_1_Suc)
  qed
  then show "returns (gen_bind (for_each (\<lambda>i out. gen_bind (vocabulary_draws 4)
                   (\<lambda>_. gen_return (out @ [\<lparr>contact_id = int (length out) + 1,
                                             ml_customer_id = None\<rparr>])))
                 (py_range n) existing) (\<lambda>out. gen_return (pd_DataFrame out)))
     (\<lambda>df. length (rows df) = length (rows c) + nat n \<and>
           map contact_id (rows df) = [1..int (length (rows df))] \<and>
           (\<forall>r\<in>set (rows df). optional_ref (ml_customer_id r) (customer_id ` set (rows c)))) g'"
    by (rule returns_bind) simp
qed

subsection \<open>Appointments\<close>

lemma returns_historical_loop:
  "returns (for_each historical_appointment cs ([], 1))
     (\<lambda>st. snd st = int (length cs) + 1 \<and>
            map appointment_id (fst st) = [1..int (length cs)] \<and>
            list_all2 appointment_of cs (fst st)) g"
proof -
  let ?I = "\<lambda>k (st :: appointment list \<times> int). snd st = int k + 1 \<and>
              map appointment_id (fst st) = [1..int k] \<and>
              list_all2 appointment_of (take k cs) (fst st)"
  have "returns (for_each historical_appointment cs ([], 1)) (?I (length cs)) g"
  proof (rule returns_for_each)
    show "?I 0 ([], 1)" by simp
  next
    fix k and st :: "appointment list \<times> int" and h :: rng
    assume k: "k < length cs" and inv: "?I k st"
    obtain out nid where st: "st = (out, nid)" by (cases st)
    have "list_all2 appointment_of (take k cs @ [cs ! k])
            (out @ [\<lparr>appointment_id = nid, ap_customer_id = sc_customer_id (cs ! k),
                      ap_technician_id = sc_technician_id (cs ! k),
                      ap_service_call_id = Some (service_call_id (cs ! k))\<rparr>])"
      using inv st by (intro list_all2_appendI) (simp_all add: appointment_of_def)
    then show "returns (historical_appointment (cs ! k) st) (?I (Suc k)) h"
      unfolding historical_appointment_def st prod.case
      using inv st k
      by (intro returns_intros) (simp add: take_Suc_conv_app_nth upto_1_Suc add.commute)
  qed
  then show ?thesis by simp
qed

lemma returns_future_loop:
  assumes "rem \<le> 0 \<or> populated c \<and> populated t"
    and "nid0 = int (length out0) + 1" "map appointment_id out0 = [1..int (length out0)]"
  shows "returns (for_each (future_appointment c t) (py_range rem) (out0, nid0))
     (\<lambda>st. map appointment_id (fst st) = [1..int (length (fst st))] \<and>
            (\<exists>fut. fst st = out0 @ fut \<and> length fut = nat rem \<and>
                   (\<forall>r\<in>set fut. future_ok c t r))) g"
proof -
  let ?I = "\<lambda>k (st :: appointment list \<times> int). snd st = int (length (fst st)) + 1 \<and>
              map appointment_id (fst st) = [1..int (length (fst st))] \<and>
              (\<exists>fut. fst st = out0 @ fut \<and> length fut = k \<and> (\<forall>r\<in>set fut. future_ok c t r))"
  have "returns (for_each (future_appointment c t) (py_range rem) (out0, nid0))
          (?I (length (py_range rem))) g"
  proof (rule returns_for_each)
    show "?I 0 (out0, nid0)" using assms(2,3) by simp
  next
    fix k and st :: "appointment list \<times> int" and h :: rng
    assume k: "k < length (py_range rem)" and inv: "?I k st"
    obtain out nid where st: "st = (out, nid)" by (cases st)
    from k have "1 \<le> rem" by simp
    then have pc: "populated c" and pt: "populated t" using assms(1) by auto
    obtain fut where fut: "out = out0 @ fut" "length fut = k" "\<forall>r\<in>set fut. future_ok c t r"
      using inv st by auto
    show "returns (future_appointment c t (py_range rem ! k) st) (?I (Suc k)) h"
      unfolding future_appointment_def st prod.case
    proof (intro returns_intros)
      fix cid tid
      assume "cid \<in> set (map customer_id (rows c))" "tid \<in> set (map technician_id (rows t))"
      then have ok: "future_ok c t \<lparr>appointment_id = nid, ap_customer_id = cid,
                        ap_technician_id = tid, ap_service_call_id = None\<rparr>"
        by (simp add: future_ok_def)
      let ?r = "\<lparr>appointment_id = nid, ap_customer_id = cid,
                        ap_technician_id = tid, ap_service_call_id = None\<rparr>"
      have "out @ [?r] = out0 @ (fut @ [?r]) \<and> length (fut @ [?r]) = Suc k \<and>
            (\<forall>r\<in>set (fut @ [?r]). future_ok c t r)"
        using fut ok by simp
      then have "\<exists>fut'. out @ [?r] = out0 @ fut' \<and> length fut' = Suc k \<and>
            (\<forall>r\<in>set fut'. future_ok c t r)"
        by blast
      then show "returns (gen_return (out @ [?r], nid + 1)) (?I (Suc k)) h'" for h'
        using inv st by (simp add: upto_1_Suc add.commute)
    qed (use pc pt in \<open>simp_all add: populated_rows\<close>)
  qed
  then show ?thesis by (rule returns_weaken) auto
qed

lemma returns_generate_appointments:
  assumes "n \<le> int (length (rows sc)) \<or> populated c \<and> populated t"
  shows "returns (generate_appointments c t sc n)
     (\<lambda>df. map appointment_id (rows df) = [1..int (length (rows df))] \<and>
        (\<exists>hist fut. rows df = hist @ fut \<and> list_all2 appointment_of (rows sc) hist \<and>
            length fut = nat (n - int (length (rows sc))) \<and>
            (\<forall>r\<in>set fut. future_ok c t r))) g"
  unfolding generate_appointments_def
proof (rule returns_bind [OF returns_historical_loop])
  fix st :: "appointment list \<times> int" and g' :: rng
  assume h: "snd st = int (length (rows sc)) + 1 \<and>
            map appointment_id (fst st) = [1..int (length (rows sc))] \<and>
            list_all2 appointment_of (rows sc) (fst st)"
  then have len: "length (fst st) = length (rows sc)"
    by (auto dest: list_all2_lengthD)
  obtain out nid where st: "st = (out, nid)" by (cases st)
  have "returns (for_each (future_appointment c t)
                   (py_range (n - int (length out))) (out, nid))
     (\<lambda>st'. map appointment_id (fst st') = [1..int (length (fst st'))] \<and>
            (\<exists>fut. fst st' = out @ fut \<and> length fut = nat (n - int (length out)) \<and>
                   (\<forall>r\<in>set fut. future_ok c t r))) g'"
    by (rule returns_future_loop) (use assms h len st in auto)
  then have "returns (for_each (future_appointment c t)
                   (py_range (n - int (length (fst st)))) st)
     (\<lambda>st'. map appointment_id (fst st') = [1..int (length (fst st'))] \<and>
            (\<exists>fut. fst st' = fst st @ fut \<and> length fut = nat (n - int (length (fst st))) \<and>
                   (\<forall>r\<in>set fut. future_ok c t r))) g'"
    by (simp add: st)
  then show "returns (let remaining_appointments = n - int (length (fst st)) in
        gen_bind (for_each (future_appointment c t) (py_range remaining_appointments) st)
          (\<lambda>st'. gen_return (pd_DataFrame (fst st'))))
     (\<lambda>df. map appointment_id (rows df) = [1..int (length (rows df))] \<and>
        (\<exists>hist fut. rows df = hist @ fut \<and> list_all2 appointment_of (rows sc) hist \<and>
            length fut = nat (n - int (length (rows sc))) \<and>
            (\<forall>r\<in>set fut. future_ok c t r))) g'"
    unfolding Let_def
    by (rule returns_bind) (use h len in auto)
qed

subsection \<open>Payments\<close>

lemma returns_payment_step:
  assumes "nid = int (length out) + 1" "map payment_id out = [1..int (length out)]"
  shows "returns (payment_step invoice (out, nid))
           (\<lambda>st. snd st = int (length (fst st)) + 1 \<and>
                  map payment_id (fst st) = [1..int (length (fst st))] \<and>
                  (\<exists>ps. fst st = out @ ps \<and> payments_for invoice ps)) g"
  unfolding payment_step_def prod.case
  apply (intro returns_intros)
  using assms apply (simp_all add: payments_for_def upto_1_Suc add.commute)
  apply auto
  done

lemma returns_payment_loop:
  "returns (for_each payment_step xs ([], 1))
     (\<lambda>st. map payment_id (fst st) = [1..int (length (fst st))] \<and>
            (\<exists>pss. list_all2 payments_for xs pss \<and> fst st = concat pss)) g"
proof -
  let ?I = "\<lambda>k (st :: payment list \<times> int). snd st = int (length (fst st)) + 1 \<and>
              map payment_id (fst st) = [1..int (length (fst st))] \<and>
              (\<exists>pss. list_all2 payments_for (take k xs) pss \<and> fst st = concat pss)"
  have "returns (for_each payment_step xs ([], 1)) (?I (length xs)) g"
  proof (rule returns_for_each)
    show "?I 0 ([], 1)" by simp
  next
    fix k and st :: "payment list \<times> int" and h :: rng
    assume k: "k < length xs" and inv: "?I k st"
    obtain out nid where st: "st = (out, nid)" by (cases st)
    obtain pss where pss: "list_all2 payments_for (take k xs) pss" "out = concat pss"
      using inv st by auto
    have "returns (payment_step (xs ! k) (out, nid))
           (\<lambda>st. snd st = int (length (fst st)) + 1 \<and>
                  map payment_id (fst st) = [1..int (length (fst st))] \<and>
                  (\<exists>ps. fst st = out @ ps \<and> payments_for (xs ! k) ps)) h"
      by (rule returns_payment_step) (use inv st in simp_all)
    then show "returns (payment_step (xs ! k) st) (?I (Suc k)) h"
      unfolding st
    proof (rule returns_weaken)
      fix st' :: "payment list \<times> int"
      assume a: "snd st' = int (length (fst st')) + 1 \<and>
                  map payment_id (fst st') = [1..int (length (fst st'))] \<and>
                  (\<exists>ps. fst st' = out @ ps \<and> payments_for (xs ! k) ps)"
      then obtain ps where ps: "fst st' = out @ ps" "payments_for (xs ! k) ps" by auto
      have "list_all2 payments_for (take k xs @ [xs ! k]) (pss @ [ps])"
        using pss(1) ps(2) by (simp add: list_all2_appendI)
      moreover have "fst st' = concat (pss @ [ps])"
        using ps(1) pss(2) by simp
      ultimately have "\<exists>pss'. list_all2 payments_for (take (Suc k) xs) pss' \<and> fst st' = concat pss'"
        using k by (auto simp: take_Suc_conv_app_nth)
      then show "?I (Suc k) st'" using a by simp
    qed
  qed
  then show ?thesis by (rule returns_weaken) auto
qed

lemma list_all2_filter_concat:
  assumes "list_all2 R (filter P xs) pss" and "\<And>x. x \<in> set xs \<Longrightarrow> \<not> P x \<Longrightarrow> R x []"
  shows "\<exists>pss'. list_all2 R xs pss' \<and> concat pss' = concat pss"
  using assms
proof (induction xs arbitrary: pss)
  case Nil
  then show ?case by simp
next
  case (Cons x xs)
  show ?case
  proof (cases "P x")
    case True
    then obtain ps rest where pss: "pss = ps # rest" "R x ps" "list_all2 R (filter P xs) rest"
      using Cons.prems(1) by (auto simp: list_all2_Cons1)
    obtain pss' where "list_all2 R xs pss'" "concat pss' = concat rest"
      using Cons.IH [OF pss(3)] Cons.prems(2) by auto
    then have "list_all2 R (x # xs) (ps # pss') \<and> concat (ps # pss') = concat pss"
      using pss by simp
    then show ?thesis by blast
  next
    case False
    then have "list_all2 R (filter P xs) pss" using Cons.prems(1) by simp
    then obtain pss' where "list_all2 R xs pss'" "concat pss' = concat pss"
      using Cons.IH Cons.prems(2) by auto
    moreover have "R x []" using Cons.prems(2) False by simp
    ultimately have "list_all2 R (x # xs) ([] # pss') \<and> concat ([] # pss') = concat pss"
      by simp
    then show ?thesis by blast
  qed
qed

lemma returns_generate_payments:
  "returns (generate_payments (Frame rs))
     (\<lambda>df. map payment_id (rows df) = [1..int (length (rows df))] \<and>
           (\<exists>pss. list_all2 payments_for rs pss \<and> rows df = concat pss)) g"
  unfolding generate_payments_def
proof (rule returns_bind_column, rule returns_bind [OF returns_payment_loop])
  fix st :: "payment list \<times> int" and g' g'' :: rng
  let ?P = "\<lambda>invoice. inv_status invoice \<in> {''Paid'', ''Pending''}"
  assume a: "map payment_id (fst st) = [1..int (length (fst st))] \<and>
            (\<exists>pss. list_all2 payments_for (filter ?P (rows (Frame rs))) pss \<and> fst st = concat pss)"
  then obtain pss where pss: "list_all2 payments_for (filter ?P rs) pss" "fst st = concat pss"
    by auto
  have "\<exists>pss'. list_all2 payments_for rs pss' \<and> concat pss' = concat pss"
    by (rule list_all2_filter_concat [OF pss(1)]) (auto simp: payments_for_def)
  then show "returns (gen_return (pd_DataFrame (fst st)))
     (\<lambda>df. map payment_id (rows df) = [1..int (length (rows df))] \<and>
           (\<exists>pss. list_all2 payments_for rs pss \<and> rows df = concat pss)) g''"
    using a pss(2) by auto
qed

lemma returns_incidents_from:
  assumes "populated t" "populated sc"
  shows "returns (generate_incident_response sc t n) (incidents_from sc t n) g"
proof -
  have "returns (generate_incident_response (Frame (rows sc)) t n)
          (incidents_from (Frame (rows sc)) t n) g"
    by (rule returns_weaken [OF returns_generate_incident_response [OF assms(1)]])
       (simp add: incidents_from_def)
  then show ?thesis using populated_Frame [OF assms(2)] by simp
qed

lemma invoice_count_None: "invoice_count sc None = \<lfloor>rat_of_nat (length (rows sc)) * (85 / 100)\<rfloor>"
proof -
  have "rat_of_nat (length (rows sc)) * (85 / 100) \<le> rat_of_nat (length (rows sc))"
    by simp
  then have "\<lfloor>rat_of_nat (length (rows sc)) * (85 / 100)\<rfloor> \<le> int (length (rows sc))"
    by (metis floor_mono floor_of_nat)
  then show ?thesis by (simp add: invoice_count_def Let_def)
qed

lemma invoice_count_None_nonneg: "0 \<le> invoice_count sc None"
  by (simp add: invoice_count_None)

lemma returns_invoices_from:
  assumes "0 \<le> invoice_count sc n"
  shows "returns (generate_invoices sc c n) (invoices_from sc n) g"
  by (rule returns_weaken [OF returns_generate_invoices [OF assms]])
     (simp add: invoices_from_def)

lemma returns_feedback_from:
  assumes "0 \<le> n"
  shows "returns (generate_customer_feedback sc c n) (feedback_from sc n) g"
  by (rule returns_weaken [OF returns_generate_customer_feedback [OF assms]])
     (simp add: feedback_from_def)

lemma returns_payments_from:
  assumes "ivs \<noteq> NoColumns"
  shows "returns (generate_payments ivs) (payments_from ivs) g"
proof -
  obtain rs where ivs: "ivs = Frame rs" using assms by (cases ivs) auto
  show ?thesis
    unfolding ivs
    by (rule returns_weaken [OF returns_generate_payments]) (simp add: payments_from_def)
qed

lemma returns_appointments_from:
  assumes "n \<le> int (length (rows sc)) \<or> populated c \<and> populated t"
  shows "returns (generate_appointments c t sc n) (appointments_from c t sc n) g"
  by (rule returns_weaken [OF returns_generate_appointments [OF assms]])
     (simp add: appointments_from_def)

lemma returns_mailing_from: "returns (generate_mailing_list c n) (mailing_from c n) g"
  by (rule returns_weaken [OF returns_generate_mailing_list]) (simp add: mailing_from_def)

lemma returns_usage_from:
  assumes "populated p" "0 \<le> avg"
  shows "returns (generate_parts_usage sc p avg) (usage_from sc p) g"
  by (rule returns_weaken [OF returns_generate_parts_usage [OF assms]])
     (simp add: usage_from_def)

lemma invoices_have_columns:
  assumes "invoices_from sc None ivs" "list_all2 P (py_range 2000) (rows sc)"
  shows "ivs \<noteq> NoColumns"
proof -
  have "length (rows sc) = 2000"
    using list_all2_lengthD [OF assms(2)] by simp
  then have "invoice_count sc None = 1700"
    by (simp add: invoice_count_None)
  then show ?thesis
    using assms(1) by (auto simp: invoices_from_def)
qed

lemma returns_full_generation: "returns full_generation full_steps g"
  unfolding full_generation_def
  apply (rule returns_bind [OF returns_generate_customers])
  apply (rule returns_bind [OF returns_generate_technicians])
  apply (rule returns_bind [OF returns_generate_equipment_types])
  apply (rule returns_bind [OF returns_generate_parts])
  apply (rule returns_bind [OF returns_generate_installed_devices], simp, simp)
  apply (rule returns_bind [OF returns_generate_service_calls], simp, simp, simp, simp)
  apply (rule returns_bind [OF returns_usage_from], simp, simp)
  apply (rule returns_bind [OF returns_incidents_from], simp, simp)
  apply (rule returns_bind [OF returns_generate_vehicle_fleet], simp)
  apply (rule returns_bind [OF returns_mailing_from])
  apply (rule returns_bind [OF returns_generate_subscriptions], simp)
  apply (rule returns_bind [OF returns_invoices_from], simp add: invoice_count_None_nonneg)
  apply (rule returns_bind [OF returns_payments_from])
  apply (elim conjE, erule invoices_have_columns, assumption)
  apply (rule returns_bind [OF returns_generate_inventory])
  apply (rule returns_bind [OF returns_appointments_from], simp)
  apply (rule returns_bind [OF returns_generate_quotes], simp, simp)
  apply (rule returns_bind [OF returns_generate_work_orders])
  apply (rule returns_bind [OF returns_feedback_from], simp)
  apply (rule returns_bind [OF returns_generate_leads])
  apply (simp add: full_steps_def Let_def)
  done

lemma rows_pd_concat [simp]: "rows (pd_concat a b) = rows a @ rows b"
  by (cases a; cases b) simp_all

lemma populated_pd_concat: "populated a \<or> populated b \<Longrightarrow> populated (pd_concat a b)"
  by (cases a; cases b) auto

lemma new_invoices_have_columns:
  assumes "invoices_from sc None ivs" "list_all2 P (py_range 200) (rows sc)"
  shows "ivs \<noteq> NoColumns"
proof -
  have "length (rows sc) = 200"
    using list_all2_lengthD [OF assms(2)] by simp
  then have "invoice_count sc None = 170"
    by (simp add: invoice_count_None)
  then show ?thesis
    using assms(1) by (auto simp: invoices_from_def)
qed

lemma returns_incremental_from:
  assumes "populated ec" "populated et" "populated ee" "populated ep" "populated es"
  shows "returns (incremental_from ec et ee ep es) (incremental_steps ec et ee ep es) g"
  unfolding incremental_from_def Let_def
  apply (rule returns_bind_column_populated, rule assms)
  apply (rule returns_bind_column_populated, rule assms)
  apply (rule returns_bind_column_populated, rule assms)
  apply (rule returns_bind_column_populated, rule assms)
  apply (rule returns_bind_column_populated, rule assms)
  apply (rule returns_bind [OF returns_generate_customers_incremental])
  apply (rule returns_bind [OF returns_generate_technicians_incremental])
  apply (rule returns_bind [OF returns_generate_equipment_types_incremental])
  apply (rule returns_bind [OF returns_generate_parts_incremental])
  apply (rule returns_bind [OF returns_generate_service_calls_incremental])
  apply (simp add: populated_pd_concat)
  apply (simp add: populated_pd_concat)
  apply (simp add: populated_pd_concat)
  apply simp
  apply (rule returns_bind [OF returns_usage_from], simp add: populated_pd_concat, simp)
  apply (rule returns_bind [OF returns_invoices_from], simp add: invoice_count_None_nonneg)
  apply (rule returns_bind [OF returns_payments_from])
  apply (elim conjE, erule new_invoices_have_columns, assumption)
  apply (rule returns_bind [OF returns_appointments_from], simp add: populated_pd_concat)
  apply (rule returns_bind [OF returns_generate_quotes])
  apply (simp add: populated_pd_concat)
  apply (simp add: populated_pd_concat)
  apply (rule returns_bind [OF returns_generate_work_orders])
  apply (rule returns_bind [OF returns_feedback_from], simp)
  apply (rule returns_bind [OF returns_generate_leads])
  apply (simp add: incremental_steps_def Let_def add.assoc)
  done

subsection \<open>Rounding\<close>

lemma py_round_upper: "py_round x n \<le> x + 1 / (2 * 10 ^ n)"
proof -
  define y where "y = x * 10 ^ n"
  define f where "f = \<lfloor>y\<rfloor>"
  define q where "q = (if y - of_int f < 1 / 2 then f else if 1 / 2 < y - of_int f then f + 1
                       else if even f then f else f + 1)"
  have f: "of_int f \<le> y" "y < of_int f + 1"
    using floor_correct [of y] by (simp_all add: f_def)
  have eq: "py_round x n = rat_of_int q / 10 ^ n"
    unfolding py_round_def Let_def q_def f_def y_def by (rule refl)
  have "rat_of_int q \<le> y + 1 / 2"
    using f by (auto simp: q_def)
  then have "rat_of_int q / 10 ^ n \<le> (y + 1 / 2) / 10 ^ n"
    by (simp add: divide_right_mono)
  also have "\<dots> = x + 1 / (2 * 10 ^ n)"
    by (simp add: y_def add_divide_distrib)
  finally show ?thesis
    by (simp only: eq)
qed

lemma partial_payment_less:
  assumes "1 / 40 < tot" "fraction \<le> 8 / 10"
  shows "py_round (tot * fraction) 2 < tot"
proof -
  have "py_round (tot * fraction) 2 \<le> tot * fraction + 1 / 200"
    using py_round_upper [of "tot * fraction" 2] by simp
  also have "\<dots> \<le> tot * (8 / 10) + 1 / 200"
    using assms by (simp add: mult_left_mono)
  also have "\<dots> < tot"
    using assms(1) by simp
  finally show ?thesis .
qed

lemma payment_rows_of_payments_for: "payments_for invoice ps \<Longrightarrow> payment_rows_of invoice ps"
  unfolding payments_for_def payment_rows_of_def
  using partial_payment_less by (auto split: if_splits)

lemma emergency_row:
  assumes "list_all2 (\<lambda>i r. incident_id r = int i + 1 \<and>
                 incident_of t (filter (\<lambda>c. service_type c = ''Emergency'') cs ! i) r)
              (py_range (min n (int (length (filter (\<lambda>c. service_type c = ''Emergency'') cs)))))
              rs"
    and "r \<in> set rs"
  shows "\<exists>c\<in>set cs. service_type c = ''Emergency'' \<and> incident_of t c r"
proof -
  let ?em = "filter (\<lambda>c. service_type c = ''Emergency'') cs"
  obtain i where i: "i \<in> set (py_range (min n (int (length ?em))))"
    and r: "incident_of t (?em ! i) r"
    using list_all2_rightD [OF assms] by blast
  from i have "i < length ?em" by (auto simp: py_range_def)
  then have "?em ! i \<in> set ?em" by (rule nth_mem)
  then show ?thesis using r by auto
qed

section \<open>The claims\<close>

text \<open>
  C9. Every skill value of every generated technician, in the full and in the incremental
  generator, lies between 1 and 10, and it is the base value of the technician's level
  plus a variance between -2 and 2, clamped into that range. Both generators return for
  every requested count and every random stream.
\<close>

theorem technician_skills_clamped:
  "(\<exists>df g'. generate_technicians n g = Inr (df, g') \<and>
      (\<forall>t\<in>set (rows df). \<forall>(c, v)\<in>set (technician_skills t).
          1 \<le> v \<and> v \<le> 10 \<and> skill_from_tier (technician_level t) v)) \<and>
   (\<exists>df g'. generate_technicians_incremental n start_id g = Inr (df, g') \<and>
      (\<forall>t\<in>set (rows df). \<forall>(c, v)\<in>set (technician_skills t).
          1 \<le> v \<and> v \<le> 10 \<and> skill_from_tier (technician_level t) v))"
proof
  obtain df g' where r: "generate_technicians n g = Inr (df, g')"
    and a: "list_all2 (\<lambda>i t. technician_id t = int i + 1 \<and> skills_ok t) (py_range n) (rows df)"
    using returnsD [OF returns_generate_technicians [of n g]] by blast
  have "\<forall>t\<in>set (rows df). skills_ok t"
    using list_all2_rightD [OF a] by blast
  then show "\<exists>df g'. generate_technicians n g = Inr (df, g') \<and>
      (\<forall>t\<in>set (rows df). \<forall>(c, v)\<in>set (technician_skills t).
          1 \<le> v \<and> v \<le> 10 \<and> skill_from_tier (technician_level t) v)"
    using r unfolding skills_ok_def by blast
next
  obtain df g' where r: "generate_technicians_incremental n start_id g = Inr (df, g')"
    and a: "list_all2 (\<lambda>i t. technician_id t = start_id + int i \<and> skills_ok t)
              (py_range n) (rows df)"
    using returnsD [OF returns_generate_technicians_incremental [of n start_id g]] by blast
  have "\<forall>t\<in>set (rows df). skills_ok t"
    using list_all2_rightD [OF a] by blast
  then show "\<exists>df g'. generate_technicians_incremental n start_id g = Inr (df, g') \<and>
      (\<forall>t\<in>set (rows df). \<forall>(c, v)\<in>set (technician_skills t).
          1 \<le> v \<and> v \<le> 10 \<and> skill_from_tier (technician_level t) v)"
    using r unfolding skills_ok_def by blast
qed

text \<open>A run of two technicians on the stream 0, 1, 2, ...: the first is a junior (base 3)
  with the skills 2, 3, 4, 5, 1, 2, 3.\<close>

theorem technician_skills_clamped_witness:
  "map_sum id (\<lambda>(df, g'). map (map snd \<circ> technician_skills) (rows df))
     (generate_technicians 1 (\<lambda>i. i)) = Inr [[2, 3, 4, 5, 1, 2, 3]] \<and>
   (\<exists>df g'. generate_technicians 1 (\<lambda>i. i) = Inr (df, g') \<and>
      (\<forall>t\<in>set (rows df). \<forall>(c, v)\<in>set (technician_skills t).
          1 \<le> v \<and> v \<le> 10 \<and> skill_from_tier (technician_level t) v))"
proof
  show "map_sum id (\<lambda>(df, g'). map (map snd \<circ> technician_skills) (rows df))
     (generate_technicians 1 (\<lambda>i. i)) = Inr [[2, 3, 4, 5, 1, 2, 3]]"
    by code_simp
next
  show "\<exists>df g'. generate_technicians 1 (\<lambda>i. i) = Inr (df, g') \<and>
      (\<forall>t\<in>set (rows df). \<forall>(c, v)\<in>set (technician_skills t).
          1 \<le> v \<and> v \<le> 10 \<and> skill_from_tier (technician_level t) v)"
    using technician_skills_clamped [of 1 "\<lambda>i. i" 0] by blast
qed

text \<open>
  C5. The incident rows refer to Emergency service calls only, and there are
  min(N, number of Emergency calls) of them: the generator, given a frame of service calls
  that has its columns and a technician table with at least one row, returns for every
  requested count N from 0 on, also when fewer Emergency calls exist than N.
\<close>

theorem incidents_capped_at_emergency_calls:
  assumes "populated t" "0 \<le> n"
  shows "\<exists>df g'. generate_incident_response (Frame cs) t n g = Inr (df, g') \<and>
           int (length (rows df)) =
             min n (int (length (filter (\<lambda>c. service_type c = ''Emergency'') cs))) \<and>
           (\<forall>r\<in>set (rows df). \<exists>c\<in>set cs.
               service_type c = ''Emergency'' \<and> service_call_id c = ir_service_call_id r)"
proof -
  let ?em = "filter (\<lambda>c. service_type c = ''Emergency'') cs"
  obtain df g' where run: "generate_incident_response (Frame cs) t n g = Inr (df, g')"
    and a: "list_all2 (\<lambda>i r. incident_id r = int i + 1 \<and> incident_of t (?em ! i) r)
              (py_range (min n (int (length ?em)))) (rows df)"
    using returnsD [OF returns_generate_incident_response [OF assms(1), of cs n g]] by blast
  have "length (rows df) = nat (min n (int (length ?em)))"
    using list_all2_lengthD [OF a] by simp
  then have "int (length (rows df)) = min n (int (length ?em))"
    using assms(2) by simp
  moreover have "\<forall>r\<in>set (rows df). \<exists>c\<in>set cs.
               service_type c = ''Emergency'' \<and> service_call_id c = ir_service_call_id r"
    using emergency_row [OF a] by (fastforce simp: incident_of_def)
  ultimately show ?thesis using run by blast
qed

theorem incidents_capped_at_emergency_calls_witness:
  "populated example_technicians \<and> (0::int) \<le> 5 \<and>
   map_sum id (\<lambda>(df, g'). map ir_service_call_id (rows df))
     (generate_incident_response (Frame example_calls) example_technicians 5 (\<lambda>i. i))
     = Inr [1, 3] \<and>
   (\<exists>df g'. generate_incident_response (Frame example_calls) example_technicians 5 (\<lambda>i. i)
        = Inr (df, g') \<and> int (length (rows df)) = 2)"
proof (intro conjI)
  show p: "populated example_technicians" by (simp add: example_technicians_def)
  show n: "(0::int) \<le> 5" by simp
  show "map_sum id (\<lambda>(df, g'). map ir_service_call_id (rows df))
          (generate_incident_response (Frame example_calls) example_technicians 5 (\<lambda>i. i))
        = Inr [1, 3]"
    by code_simp
  show "\<exists>df g'. generate_incident_response (Frame example_calls) example_technicians 5 (\<lambda>i. i)
          = Inr (df, g') \<and> int (length (rows df)) = 2"
    using incidents_capped_at_emergency_calls [OF p n, of example_calls "\<lambda>i. i"]
    by (auto simp: example_calls_def)
qed

text \<open>
  C10. Every incident row carries, as responding technician, the technician of an
  Emergency service call with the row's service call id; where the service call ids are
  distinct, that is the technician of the one call the row refers to. This holds for every
  random stream: the value is copied from the call, no draw decides it.
\<close>

theorem responding_technician_copied:
  assumes "populated t"
  shows "\<exists>df g'. generate_incident_response (Frame cs) t n g = Inr (df, g') \<and>
           (\<forall>r\<in>set (rows df). \<exists>c\<in>set cs.
               service_type c = ''Emergency'' \<and> service_call_id c = ir_service_call_id r \<and>
               responding_technician_id r = sc_technician_id c) \<and>
           (distinct (map service_call_id cs) \<longrightarrow>
              (\<forall>r\<in>set (rows df). \<forall>c\<in>set cs.
                  service_call_id c = ir_service_call_id r \<longrightarrow>
                  responding_technician_id r = sc_technician_id c))"
proof -
  let ?em = "filter (\<lambda>c. service_type c = ''Emergency'') cs"
  obtain df g' where run: "generate_incident_response (Frame cs) t n g = Inr (df, g')"
    and a: "list_all2 (\<lambda>i r. incident_id r = int i + 1 \<and> incident_of t (?em ! i) r)
              (py_range (min n (int (length ?em)))) (rows df)"
    using returnsD [OF returns_generate_incident_response [OF assms(1), of cs n g]] by blast
  have 1: "\<forall>r\<in>set (rows df). \<exists>c\<in>set cs.
               service_type c = ''Emergency'' \<and> service_call_id c = ir_service_call_id r \<and>
               responding_technician_id r = sc_technician_id c"
    using emergency_row [OF a] by (fastforce simp: incident_of_def)
  have 2: "responding_technician_id r = sc_technician_id c"
    if d: "distinct (map service_call_id cs)" and r: "r \<in> set (rows df)" and c: "c \<in> set cs"
      and eq: "service_call_id c = ir_service_call_id r" for r c
  proof -
    obtain c' where c': "c' \<in> set cs" "service_call_id c' = ir_service_call_id r"
      "responding_technician_id r = sc_technician_id c'"
      using 1 r by blast
    have "inj_on service_call_id (set cs)"
      using d by (simp add: distinct_map)
    then have "c' = c"
      using c c' eq by (simp add: inj_on_def)
    then show ?thesis using c'(3) by simp
  qed
  show ?thesis using run 1 2 by blast
qed

theorem responding_technician_copied_witness:
  "populated example_technicians \<and>
   map_sum id (\<lambda>(df, g'). map (\<lambda>r. (ir_service_call_id r, responding_technician_id r)) (rows df))
     (generate_incident_response (Frame example_calls) example_technicians 5 (\<lambda>i. i))
     = Inr [(1, 7), (3, 9)] \<and>
   (\<exists>df g'. generate_incident_response (Frame example_calls) example_technicians 5 (\<lambda>i. i)
        = Inr (df, g') \<and>
      list_all (\<lambda>r. list_all (\<lambda>c. service_call_id c \<noteq> ir_service_call_id r \<or>
                                   responding_technician_id r = sc_technician_id c)
                          example_calls) (rows df))"
proof (intro conjI)
  show p: "populated example_technicians" by (simp add: example_technicians_def)
  show "map_sum id (\<lambda>(df, g'). map (\<lambda>r. (ir_service_call_id r, responding_technician_id r)) (rows df))
          (generate_incident_response (Frame example_calls) example_technicians 5 (\<lambda>i. i))
        = Inr [(1, 7), (3, 9)]"
    by code_simp
  have d: "distinct (map service_call_id example_calls)"
    by (simp add: example_calls_def)
  show "\<exists>df g'. generate_incident_response (Frame example_calls) example_technicians 5 (\<lambda>i. i)
        = Inr (df, g') \<and>
      list_all (\<lambda>r. list_all (\<lambda>c. service_call_id c \<noteq> ir_service_call_id r \<or>
                                   responding_technician_id r = sc_technician_id c)
                          example_calls) (rows df)"
    using responding_technician_copied [OF p, of example_calls 5 "\<lambda>i. i"] d
    unfolding list_all_iff by blast
qed

end
